theory Spec2Isabelle
  imports Complex_Main
begin

section \<open>Data model\<close>

text \<open>
  The program is a single Go file, \<^verbatim>\<open>main.go\<close>. Its numbers are \<^verbatim>\<open>float64\<close> and
  \<^verbatim>\<open>int\<close>. Coordinates arrive from a JSON document, so they are finite; they are
  modelled as \<^typ>\<open>real\<close>, which agrees with \<^verbatim>\<open>float64\<close> on every comparison of
  finite values. Arithmetic on them (the projection, the vertex mean) is the exact
  arithmetic of the reals: rounding, infinities and NaN are not part of the model.
  Where Go divides by zero and goes on with an infinity or NaN, the model has the
  quotient 0 of HOL; the lemmas about projected corners and the theorems about means have
  hypotheses that keep the divisors away from zero.
  Go's \<^verbatim>\<open>int\<close> values are only compared, stored and printed here, never added or
  multiplied, so they are \<^typ>\<open>int\<close>.
\<close>

text \<open>
  What a request can end in instead of an image: a run-time panic of the Go code
  (a failed type assertion, a nil dereference, an index out of range), which the HTTP
  server turns into an aborted request, or a response written with \<^verbatim>\<open>http.Error\<close>.
\<close>

datatype error =
    PanicTypeAssertion
  | PanicNilDereference
  | PanicIndexOutOfRange
  | HttpError nat string

text \<open>A decoded JSON value, as far as the code tells values apart: a property is
  asserted to be a \<^verbatim>\<open>float64\<close>, that is, a JSON number.\<close>

datatype json_value =
    JNull
  | JBool bool
  | JNumber real
  | JString string
  | JComposite

type_synonym coord = "real list"
type_synonym ring = "coord list"

text \<open>\<^verbatim>\<open>geojson.Geometry\<close>: the type tag and the two coordinate fields the code reads.\<close>

record geometry =
  Type :: string
  Polygon :: "ring list"
  MultiPolygon :: "ring list list"

text \<open>\<^verbatim>\<open>geojson.Feature\<close>: the property map and the geometry pointer, which is nil
  when the document says \<^verbatim>\<open>"geometry": null\<close>.\<close>

record feature =
  Properties :: "string \<rightharpoonup> json_value"
  Geometry :: "geometry option"

record IntensityQuery =
  ID :: int
  Scale :: int

text \<open>The four results of \<^verbatim>\<open>calculateBounds\<close>.\<close>

record bounds =
  minLon :: real
  minLat :: real
  maxLon :: real
  maxLat :: real

section \<open>Library functions the code calls\<close>

text \<open>Go's conversion \<^verbatim>\<open>int(x)\<close> of a float truncates towards zero.\<close>

definition go_int :: "real \<Rightarrow> int" where
  "go_int x = (if 0 \<le> x then \<lfloor>x\<rfloor> else \<lceil>x\<rceil>)"

text \<open>\<^verbatim>\<open>fmt.Sprintf("%d", n)\<close>: the decimal digits, with a minus sign for a negative
  number.\<close>

definition digit_char :: "nat \<Rightarrow> char" where
  "digit_char d = ''0123456789'' ! d"

fun nat_digits :: "nat \<Rightarrow> string" where
  "nat_digits n = (if n < 10 then [digit_char n]
                   else nat_digits (n div 10) @ [digit_char (n mod 10)])"

declare nat_digits.simps [simp del]

definition fmt_d :: "int \<Rightarrow> string" where
  "fmt_d n = (if n < 0 then CHR ''-'' # nat_digits (nat (- n)) else nat_digits (nat n))"

text \<open>\<^verbatim>\<open>fmt.Sprintf("%.1f", x)\<close>: the value rounded to one decimal place, a tie going to
  the even digit; no exponent. The sign is that of the value before rounding.\<close>

definition round_half_even :: "real \<Rightarrow> int" where
  "round_half_even y =
     (let f = \<lfloor>y\<rfloor>; r = y - of_int f
      in if r < 1 / 2 then f
         else if 1 / 2 < r then f + 1
         else if even f then f else f + 1)"

definition fmt_1f :: "real \<Rightarrow> string" where
  "fmt_1f x =
     (let n = nat (round_half_even (\<bar>x\<bar> * 10))
      in (if x < 0 then ''-'' else '''') @ nat_digits (n div 10) @ ''.'' @ [digit_char (n mod 10)])"

text \<open>The file's own \<^verbatim>\<open>min\<close> and \<^verbatim>\<open>max\<close> on floats.\<close>

definition min_f :: "real \<Rightarrow> real \<Rightarrow> real" where
  "min_f a b = (if a < b then a else b)"

definition max_f :: "real \<Rightarrow> real \<Rightarrow> real" where
  "max_f a b = (if a > b then a else b)"

section \<open>The colour ramp\<close>

text \<open>\<^verbatim>\<open>intensityToColor\<close>: a switch on the level, with a default branch.\<close>

definition intensityToColor :: "int \<Rightarrow> string" where
  "intensityToColor scale =
     (if scale = 0 then ''#27272a''
      else if scale = 1 then ''#bae6fd''
      else if scale = 2 then ''#4ade80''
      else if scale = 3 then ''#facc15''
      else if scale = 4 then ''#f97316''
      else if scale = 5 then ''#dc2626''
      else if scale = 6 then ''#86198f''
      else if scale = 7 then ''#500724''
      else if scale > 6 then ''#4a044e''
      else if scale > 5 then ''#b91c1c''
      else ''#27272a'')"

section \<open>Loops that can panic\<close>

text \<open>A \<^verbatim>\<open>for _, x := range xs\<close> loop over a state, whose body can panic: the first
  panic ends the loop and is the result.\<close>

fun range_loop :: "('s \<Rightarrow> 'a \<Rightarrow> error + 's) \<Rightarrow> 'a list \<Rightarrow> 's \<Rightarrow> error + 's" where
  "range_loop body [] s = Inr s"
| "range_loop body (x # xs) s =
     (case body s x of Inl e \<Rightarrow> Inl e | Inr s' \<Rightarrow> range_loop body xs s')"

section \<open>The bounds of the active regions\<close>

text \<open>\<^verbatim>\<open>int(feature.Properties["id"].(float64))\<close>: the one-result type assertion panics
  when the property is missing or is not a number.\<close>

definition featureId :: "feature \<Rightarrow> error + int" where
  "featureId f =
     (case Properties f ''id'' of
        Some (JNumber x) \<Rightarrow> Inr (go_int x)
      | _ \<Rightarrow> Inl PanicTypeAssertion)"

text \<open>\<^verbatim>\<open>scaleMap[id]\<close>: reading a Go map gives the zero value for a missing key.\<close>

definition scaleAt :: "(int \<rightharpoonup> int) \<Rightarrow> int \<Rightarrow> int" where
  "scaleAt scaleMap i = (case scaleMap i of None \<Rightarrow> 0 | Some v \<Rightarrow> v)"

text \<open>The body of the innermost loop: \<^verbatim>\<open>coord[0]\<close> and \<^verbatim>\<open>coord[1]\<close> are read, then
  the four running values are widened.\<close>

definition widen :: "bounds \<Rightarrow> coord \<Rightarrow> error + bounds" where
  "widen b coord =
     (if length coord < 2 then Inl PanicIndexOutOfRange
      else let lon = coord ! 0; lat = coord ! 1
           in Inr \<lparr>minLon = min_f (minLon b) lon, minLat = min_f (minLat b) lat,
                   maxLon = max_f (maxLon b) lon, maxLat = max_f (maxLat b) lat\<rparr>)"

definition widenRing :: "bounds \<Rightarrow> ring \<Rightarrow> error + bounds" where
  "widenRing b ring = range_loop widen ring b"

definition widenPolygon :: "bounds \<Rightarrow> ring list \<Rightarrow> error + bounds" where
  "widenPolygon b rings = range_loop widenRing rings b"

definition widenMultiPolygon :: "bounds \<Rightarrow> ring list list \<Rightarrow> error + bounds" where
  "widenMultiPolygon b polygons = range_loop widenPolygon polygons b"

text \<open>The body of the loop over the features: the id is read first, a feature whose
  level is 0 is skipped before its geometry is touched, and the switch on the geometry
  type has no default case.\<close>

definition boundsFeature :: "(int \<rightharpoonup> int) \<Rightarrow> bounds \<Rightarrow> feature \<Rightarrow> error + bounds" where
  "boundsFeature scaleMap b f =
     (case featureId f of
        Inl e \<Rightarrow> Inl e
      | Inr i \<Rightarrow>
          if scaleAt scaleMap i = 0 then Inr b
          else (case Geometry f of
                  None \<Rightarrow> Inl PanicNilDereference
                | Some g \<Rightarrow>
                    if Type g = ''Polygon'' then widenPolygon b (Polygon g)
                    else if Type g = ''MultiPolygon'' then widenMultiPolygon b (MultiPolygon g)
                    else Inr b))"

definition initialBounds :: bounds where
  "initialBounds = \<lparr>minLon = 180, minLat = 90, maxLon = - 180, maxLat = - 90\<rparr>"

definition calculateBounds :: "feature list \<Rightarrow> (int \<rightharpoonup> int) \<Rightarrow> error + bounds" where
  "calculateBounds fc scaleMap = range_loop (boundsFeature scaleMap) fc initialBounds"

section \<open>The intensity assignment\<close>

text \<open>Lines 227 to 236 of \<^verbatim>\<open>mapHandler\<close>: the pairs are stored in list order; a pair
  whose level is outside 0..7 ends the request with status 400.\<close>

definition storeIntensity :: "(int \<rightharpoonup> int) \<Rightarrow> IntensityQuery \<Rightarrow> error + (int \<rightharpoonup> int)" where
  "storeIntensity scaleMap intensity =
     (if Scale intensity < 0 \<or> Scale intensity > 7
      then Inl (HttpError 400 (''Invalid scale value for ID '' @ fmt_d (ID intensity) @
                               '': '' @ fmt_d (Scale intensity)))
      else Inr (scaleMap(ID intensity \<mapsto> Scale intensity)))"

definition buildScaleMap :: "IntensityQuery list \<Rightarrow> error + (int \<rightharpoonup> int)" where
  "buildScaleMap intensities = range_loop storeIntensity intensities Map.empty"

text \<open>The switch on the \<^verbatim>\<open>size\<close> parameter.\<close>

definition sizeMultiplier :: "string \<Rightarrow> real" where
  "sizeMultiplier size_param =
     (if size_param = ''1'' then 1 else if size_param = ''2'' then 2
      else if size_param = ''3'' then 4 else 1)"

section \<open>The projection\<close>

text \<open>The closure \<^verbatim>\<open>funcToScreen\<close>, with the variables it captures (the canvas size and
  the four bounds) as arguments.\<close>

definition funcToScreen :: "real \<Rightarrow> real \<Rightarrow> bounds \<Rightarrow> real \<Rightarrow> real \<Rightarrow> real \<times> real" where
  "funcToScreen CANVAS_WIDTH CANVAS_HEIGHT b lon lat =
     (let margin = 1 / 10;
          effectiveWidth = CANVAS_WIDTH * (1 - 2 * margin);
          effectiveHeight = CANVAS_HEIGHT * (1 - 2 * margin);
          centerLat = (maxLat b + minLat b) / 2;
          centerLon = (maxLon b + minLon b) / 2;
          centerX = CANVAS_WIDTH / 2;
          centerY = CANVAS_HEIGHT / 2;
          lonCorrection = cos (centerLat * pi / 180);
          lonSpan = (maxLon b - minLon b) * lonCorrection;
          latSpan = maxLat b - minLat b;
          scaleX = effectiveWidth / lonSpan;
          scaleY = effectiveHeight / latSpan;
          scale = min_f scaleX scaleY
      in (((lon - centerLon) * lonCorrection) * scale + centerX,
          (centerLat - lat) * scale + centerY))"

section \<open>Paths\<close>

text \<open>The loop over the vertices of one ring, with its index \<^verbatim>\<open>i\<close> and the string built
  so far as the state; then the closing \<^verbatim>\<open>" Z"\<close>.\<close>

definition pathStep ::
  "(real \<Rightarrow> real \<Rightarrow> real \<times> real) \<Rightarrow> nat \<times> string \<Rightarrow> coord \<Rightarrow> error + nat \<times> string" where
  "pathStep toScreen st coord =
     (case st of (i, pathStr) \<Rightarrow>
        if length coord < 2 then Inl PanicIndexOutOfRange
        else (case toScreen (coord ! 0) (coord ! 1) of (x, y) \<Rightarrow>
                if i = 0 then Inr (Suc i, pathStr @ fmt_1f x @ '' '' @ fmt_1f y)
                else Inr (Suc i, pathStr @ '' L'' @ fmt_1f x @ '' '' @ fmt_1f y)))"

definition ringPath :: "(real \<Rightarrow> real \<Rightarrow> real \<times> real) \<Rightarrow> ring \<Rightarrow> error + string" where
  "ringPath toScreen ring =
     (case range_loop (pathStep toScreen) ring (0, ''M'') of
        Inl e \<Rightarrow> Inl e
      | Inr (i, pathStr) \<Rightarrow> Inr (pathStr @ '' Z''))"

definition appendRingPath ::
  "(real \<Rightarrow> real \<Rightarrow> real \<times> real) \<Rightarrow> string list \<Rightarrow> ring \<Rightarrow> error + string list" where
  "appendRingPath toScreen paths ring =
     (case ringPath toScreen ring of Inl e \<Rightarrow> Inl e | Inr pathStr \<Rightarrow> Inr (paths @ [pathStr]))"

definition polygonPaths ::
  "(real \<Rightarrow> real \<Rightarrow> real \<times> real) \<Rightarrow> string list \<Rightarrow> ring list \<Rightarrow> error + string list" where
  "polygonPaths toScreen paths rings = range_loop (appendRingPath toScreen) rings paths"

definition multiPolygonPaths ::
  "(real \<Rightarrow> real \<Rightarrow> real \<times> real) \<Rightarrow> string list \<Rightarrow> ring list list \<Rightarrow> error + string list" where
  "multiPolygonPaths toScreen paths polygons = range_loop (polygonPaths toScreen) polygons paths"

text \<open>The \<^verbatim>\<open>if\<close> / \<^verbatim>\<open>else if\<close> on the geometry type, which has no final \<^verbatim>\<open>else\<close>:
  for any other type \<^verbatim>\<open>paths\<close> stays empty.\<close>

definition geometryPaths ::
  "(real \<Rightarrow> real \<Rightarrow> real \<times> real) \<Rightarrow> geometry \<Rightarrow> error + string list" where
  "geometryPaths toScreen g =
     (if Type g = ''Polygon'' then polygonPaths toScreen [] (Polygon g)
      else if Type g = ''MultiPolygon'' then multiPolygonPaths toScreen [] (MultiPolygon g)
      else Inr [])"

text \<open>\<^verbatim>\<open>finalPath\<close>: every path followed by a space.\<close>

definition joinPaths :: "string list \<Rightarrow> string" where
  "joinPaths paths = foldl (\<lambda>finalPath p. finalPath @ p @ '' '') [] paths"

section \<open>The vector scene\<close>

text \<open>What the calls on the SVG canvas write, in the order of the calls.\<close>

datatype svg_elem =
    SvgStart int int
  | SvgRect int int int int string
  | SvgPath string string
  | SvgEnd

definition pathStyle :: "string \<Rightarrow> real \<Rightarrow> string" where
  "pathStyle fillColor multiplier =
     (let strokeWidth = 4 / 10 * multiplier
      in ''fill:'' @ fillColor @ '';stroke:#a1a1aa;stroke-width:'' @ fmt_1f strokeWidth @
         '';fill-opacity:0.8'')"

text \<open>The body of the loop of lines 307 to 362. Here the type assertion on the id has
  two results, so a bad id ends the request with status 500 instead of a panic.\<close>

definition drawFeature ::
  "(real \<Rightarrow> real \<Rightarrow> real \<times> real) \<Rightarrow> (int \<rightharpoonup> int) \<Rightarrow> real \<Rightarrow> svg_elem list \<Rightarrow> feature
     \<Rightarrow> error + svg_elem list" where
  "drawFeature toScreen scaleMap multiplier canvas f =
     (case Properties f ''id'' of
        Some (JNumber i) \<Rightarrow>
          (let scaleValue = (case scaleMap (go_int i) of Some val \<Rightarrow> val | None \<Rightarrow> 0);
               fillColor = intensityToColor scaleValue
           in case Geometry f of
                None \<Rightarrow> Inl PanicNilDereference
              | Some g \<Rightarrow>
                  (case geometryPaths toScreen g of
                     Inl e \<Rightarrow> Inl e
                   | Inr paths \<Rightarrow>
                       Inr (canvas @ [SvgPath (joinPaths paths) (pathStyle fillColor multiplier)])))
      | _ \<Rightarrow> Inl (HttpError 500 ''Invalid ID format in GeoJSON''))"

definition composeScene ::
  "(real \<Rightarrow> real \<Rightarrow> real \<times> real) \<Rightarrow> (int \<rightharpoonup> int) \<Rightarrow> real \<Rightarrow> real \<Rightarrow> real \<Rightarrow> feature list
     \<Rightarrow> error + svg_elem list" where
  "composeScene toScreen scaleMap multiplier CANVAS_WIDTH CANVAS_HEIGHT fc =
     (let canvas = [SvgStart (go_int CANVAS_WIDTH) (go_int CANVAS_HEIGHT),
                    SvgRect 0 0 (go_int CANVAS_WIDTH) (go_int CANVAS_HEIGHT) ''fill:#18181b'']
      in case range_loop (drawFeature toScreen scaleMap multiplier) fc canvas of
           Inl e \<Rightarrow> Inl e
         | Inr canvas' \<Rightarrow> Inr (canvas' @ [SvgEnd]))"

section \<open>Labels\<close>

text \<open>\<^verbatim>\<open>calculateCenter\<close>: the two sums over the vertices, divided by their number.\<close>

definition sumStep :: "real \<times> real \<Rightarrow> coord \<Rightarrow> error + real \<times> real" where
  "sumStep s coord =
     (case s of (sumLon, sumLat) \<Rightarrow>
        if length coord < 2 then Inl PanicIndexOutOfRange
        else Inr (sumLon + coord ! 0, sumLat + coord ! 1))"

definition calculateCenter :: "ring \<Rightarrow> error + real \<times> real" where
  "calculateCenter coords =
     (let count = length coords
      in case range_loop sumStep coords (0, 0) of
           Inl e \<Rightarrow> Inl e
         | Inr (sumLon, sumLat) \<Rightarrow> Inr (sumLon / real count, sumLat / real count))"

text \<open>A call of \<^verbatim>\<open>DrawString\<close> at the point \<^verbatim>\<open>freetype.Pt(x, y)\<close>.\<close>

datatype draw_cmd = DrawString string int int

text \<open>The switch that chooses the ring whose vertices are averaged; \<^verbatim>\<open>Polygon[0]\<close> and
  \<^verbatim>\<open>MultiPolygon[0][0]\<close> panic when there is no such ring, and for any other geometry
  type the two variables keep their zero value.\<close>

definition featureCenter :: "geometry \<Rightarrow> error + real \<times> real" where
  "featureCenter g =
     (if Type g = ''Polygon'' then
        (case Polygon g of [] \<Rightarrow> Inl PanicIndexOutOfRange | ring # _ \<Rightarrow> calculateCenter ring)
      else if Type g = ''MultiPolygon'' then
        (case MultiPolygon g of
           [] \<Rightarrow> Inl PanicIndexOutOfRange
         | polygon # _ \<Rightarrow>
             (case polygon of [] \<Rightarrow> Inl PanicIndexOutOfRange | ring # _ \<Rightarrow> calculateCenter ring))
      else Inr (0, 0))"

text \<open>The body of the label loop of \<^verbatim>\<open>svgToPNG\<close> (lines 175 to 198).\<close>

definition drawLabel ::
  "(real \<Rightarrow> real \<Rightarrow> real \<times> real) \<Rightarrow> (int \<rightharpoonup> int) \<Rightarrow> draw_cmd list \<Rightarrow> feature
     \<Rightarrow> error + draw_cmd list" where
  "drawLabel toScreen scaleMap drawn f =
     (case featureId f of
        Inl e \<Rightarrow> Inl e
      | Inr i \<Rightarrow>
          (case scaleMap i of
             None \<Rightarrow> Inr drawn
           | Some scale \<Rightarrow>
               if scale = 0 then Inr drawn
               else (case Geometry f of
                       None \<Rightarrow> Inl PanicNilDereference
                     | Some g \<Rightarrow>
                         (case featureCenter g of
                            Inl e \<Rightarrow> Inl e
                          | Inr (centerLon, centerLat) \<Rightarrow>
                              (case toScreen centerLon centerLat of (x, y) \<Rightarrow>
                                 Inr (drawn @ [DrawString (fmt_d scale) (go_int x - 5) (go_int y + 5)]))))))"

text \<open>The rendered image, as far as this file decides it: the scene handed to the
  rasteriser, the size of the pixel buffer, and the strings drawn over it in order.
  The rasteriser, the font and the PNG encoder are libraries; their own failures are
  not part of the model.\<close>

record image =
  scene :: "svg_elem list"
  width :: int
  height :: int
  texts :: "draw_cmd list"

definition svgToPNG ::
  "svg_elem list \<Rightarrow> int \<Rightarrow> int \<Rightarrow> string \<Rightarrow> bool \<Rightarrow> real \<Rightarrow> feature list \<Rightarrow> (int \<rightharpoonup> int)
     \<Rightarrow> (real \<Rightarrow> real \<Rightarrow> real \<times> real) \<Rightarrow> error + image" where
  "svgToPNG svgData w h footerText showScale multiplier features scaleMap toScreen =
     (let footerText' = (if footerText = [] then
                           ''Code available under the MIT License (GitHub: evacuate).''
                         else footerText)
      in case (if showScale then range_loop (drawLabel toScreen scaleMap) features [] else Inr []) of
           Inl e \<Rightarrow> Inl e
         | Inr labels \<Rightarrow>
             Inr \<lparr>scene = svgData, width = w, height = h,
                  texts = labels @ [DrawString footerText' (go_int (10 * multiplier))
                                                 (h - go_int (14 * multiplier))]\<rparr>)"

section \<open>The request handler\<close>

text \<open>\<^verbatim>\<open>mapHandler\<close> from line 227 on, given what the lines before it and the two
  library decoders deliver: the decoded list of pairs, the three other query parameters
  and the decoded feature collection.\<close>

definition mapHandler ::
  "IntensityQuery list \<Rightarrow> string \<Rightarrow> string \<Rightarrow> string \<Rightarrow> feature list \<Rightarrow> error + image" where
  "mapHandler intensities size_param footer scale_text fc =
     (case buildScaleMap intensities of
        Inl e \<Rightarrow> Inl e
      | Inr scaleMap \<Rightarrow>
          (let multiplier = sizeMultiplier size_param;
               CANVAS_WIDTH = 1280 * multiplier;
               CANVAS_HEIGHT = 720 * multiplier
           in case calculateBounds fc scaleMap of
                Inl e \<Rightarrow> Inl e
              | Inr b \<Rightarrow>
                  (let toScreen = funcToScreen CANVAS_WIDTH CANVAS_HEIGHT b
                   in case composeScene toScreen scaleMap multiplier CANVAS_WIDTH CANVAS_HEIGHT fc of
                        Inl e \<Rightarrow> Inl e
                      | Inr svgData \<Rightarrow>
                          svgToPNG svgData (go_int CANVAS_WIDTH) (go_int CANVAS_HEIGHT) footer
                            (scale_text = ''true'') multiplier fc scaleMap toScreen)))"

section \<open>Vocabulary of the properties\<close>

text \<open>
  The definitions of this section are not translations of the code: they are the words
  in which the properties are stated. Those named \<open>spec_...\<close> follow the wording of the
  specification and are compared with the functions above.
\<close>

subsection \<open>The palette\<close>

text \<open>The eight entries of the documented palette, by level: dark gray, pale cyan,
  green, yellow, orange, red, magenta and deep maroon.\<close>

definition spec_palette :: "string list" where
  "spec_palette =
     [''#27272a'', ''#bae6fd'', ''#4ade80'', ''#facc15'', ''#f97316'', ''#dc2626'', ''#86198f'',
      ''#500724'']"

subsection \<open>Well-formed input\<close>

text \<open>A feature whose id property is a JSON number; a geometry all of whose positions
  (of the coordinate field its type selects) have at least two components; a ring with
  such positions.\<close>

definition hasNumericId :: "feature \<Rightarrow> bool" where
  "hasNumericId f = (case Properties f ''id'' of Some (JNumber x) \<Rightarrow> True | _ \<Rightarrow> False)"

definition vertices :: "geometry \<Rightarrow> coord list" where
  "vertices g = (if Type g = ''Polygon'' then concat (Polygon g)
                 else if Type g = ''MultiPolygon'' then concat (concat (MultiPolygon g))
                 else [])"

definition positionsOk :: "geometry \<Rightarrow> bool" where
  "positionsOk g = list_all (\<lambda>c. 2 \<le> length c) (vertices g)"

definition ringOk :: "ring \<Rightarrow> bool" where
  "ringOk ring = list_all (\<lambda>c. 2 \<le> length c) ring"

definition unsupported :: "geometry \<Rightarrow> bool" where
  "unsupported g = (Type g \<noteq> ''Polygon'' \<and> Type g \<noteq> ''MultiPolygon'')"

subsection \<open>Levels and bounds\<close>

text \<open>The level of a region is the entry of the assignment for its id, and 0 when there
  is none. A region is active when its level is not 0.\<close>

definition level :: "(int \<rightharpoonup> int) \<Rightarrow> feature \<Rightarrow> int" where
  "level scaleMap f = (case featureId f of Inr i \<Rightarrow> scaleAt scaleMap i | Inl e \<Rightarrow> 0)"

definition active :: "(int \<rightharpoonup> int) \<Rightarrow> feature \<Rightarrow> bool" where
  "active scaleMap f = (case featureId f of Inr i \<Rightarrow> scaleAt scaleMap i \<noteq> 0 | Inl e \<Rightarrow> False)"

definition inactive :: "(int \<rightharpoonup> int) \<Rightarrow> feature \<Rightarrow> bool" where
  "inactive scaleMap f = (case featureId f of Inr i \<Rightarrow> scaleAt scaleMap i = 0 | Inl e \<Rightarrow> False)"

definition inside :: "bounds \<Rightarrow> coord \<Rightarrow> bool" where
  "inside b c =
     (minLon b \<le> c ! 0 \<and> c ! 0 \<le> maxLon b \<and> minLat b \<le> c ! 1 \<and> c ! 1 \<le> maxLat b)"

definition wider :: "bounds \<Rightarrow> bounds \<Rightarrow> bool" where
  "wider b b' =
     (minLon b' \<le> minLon b \<and> maxLon b \<le> maxLon b' \<and>
      minLat b' \<le> minLat b \<and> maxLat b \<le> maxLat b')"

definition covered :: "(int \<rightharpoonup> int) \<Rightarrow> bounds \<Rightarrow> feature \<Rightarrow> bool" where
  "covered scaleMap b f =
     (case Geometry f of
        None \<Rightarrow> True
      | Some g \<Rightarrow> active scaleMap f \<longrightarrow> (\<forall>c\<in>set (vertices g). inside b c))"

text \<open>What \<^verbatim>\<open>calculateBounds\<close> needs of a feature in order not to panic, and two
  features that differ at most in the geometry of an inactive one.\<close>

definition boundsInputOk :: "(int \<rightharpoonup> int) \<Rightarrow> feature \<Rightarrow> bool" where
  "boundsInputOk scaleMap f =
     (hasNumericId f \<and>
      (active scaleMap f \<longrightarrow> (case Geometry f of None \<Rightarrow> False | Some g \<Rightarrow> positionsOk g)))"

definition sameButInactiveGeometry :: "(int \<rightharpoonup> int) \<Rightarrow> feature \<Rightarrow> feature \<Rightarrow> bool" where
  "sameButInactiveGeometry scaleMap f f' =
     (Properties f' = Properties f \<and> (Geometry f' = Geometry f \<or> inactive scaleMap f))"

subsection \<open>The intensity assignment\<close>

text \<open>A pair with a level in 0..7, and the assignment that stores the pairs of a list
  one after the other.\<close>

definition validScale :: "IntensityQuery \<Rightarrow> bool" where
  "validScale q = (0 \<le> Scale q \<and> Scale q \<le> 7)"

primrec assignAll :: "IntensityQuery list \<Rightarrow> (int \<rightharpoonup> int) \<Rightarrow> (int \<rightharpoonup> int)" where
  "assignAll [] m = m"
| "assignAll (q # qs) m = assignAll qs (m(ID q \<mapsto> Scale q))"

definition nonNegative :: "(int \<rightharpoonup> int) \<Rightarrow> bool" where
  "nonNegative scaleMap = (\<forall>i v. scaleMap i = Some v \<longrightarrow> 0 \<le> v)"

subsection \<open>The projection\<close>

text \<open>The projection as the specification words it: the centre of the bounds, the
  longitude correction at the centre latitude, and the letterbox scale for a margin
  fraction; and the drawing rectangle that leaves a tenth of the canvas free on every
  side.\<close>

definition spec_centerLon :: "bounds \<Rightarrow> real" where
  "spec_centerLon b = (minLon b + maxLon b) / 2"

definition spec_centerLat :: "bounds \<Rightarrow> real" where
  "spec_centerLat b = (minLat b + maxLat b) / 2"

definition spec_lonCorrection :: "bounds \<Rightarrow> real" where
  "spec_lonCorrection b = cos (spec_centerLat b * pi / 180)"

definition spec_scale :: "real \<Rightarrow> real \<Rightarrow> real \<Rightarrow> bounds \<Rightarrow> real" where
  "spec_scale canvasWidth canvasHeight marginFraction b =
     min (canvasWidth * (1 - 2 * marginFraction) / ((maxLon b - minLon b) * spec_lonCorrection b))
         (canvasHeight * (1 - 2 * marginFraction) / (maxLat b - minLat b))"

definition inDrawingRect :: "real \<Rightarrow> real \<Rightarrow> real \<times> real \<Rightarrow> bool" where
  "inDrawingRect w h p =
     (w * (1 / 10) \<le> fst p \<and> fst p \<le> w * (9 / 10) \<and>
      h * (1 / 10) \<le> snd p \<and> snd p \<le> h * (9 / 10))"

subsection \<open>Paths\<close>

text \<open>A path as the specification describes it: a move to the first projected vertex, a
  line to every further one, and the closing command; and the text of each command.
  For a ring without vertices the code writes \<^verbatim>\<open>M Z\<close>.\<close>

datatype path_cmd = MoveTo real real | LineTo real real | ClosePath

definition project :: "(real \<Rightarrow> real \<Rightarrow> real \<times> real) \<Rightarrow> coord \<Rightarrow> real \<times> real" where
  "project toScreen c = toScreen (c ! 0) (c ! 1)"

definition ringCommands :: "(real \<Rightarrow> real \<Rightarrow> real \<times> real) \<Rightarrow> ring \<Rightarrow> path_cmd list" where
  "ringCommands toScreen ring =
     (case ring of
        [] \<Rightarrow> []
      | v # vs \<Rightarrow>
          (case project toScreen v of (x, y) \<Rightarrow> MoveTo x y) #
          map (\<lambda>u. case project toScreen u of (x, y) \<Rightarrow> LineTo x y) vs @ [ClosePath])"

fun commandText :: "path_cmd \<Rightarrow> string" where
  "commandText (MoveTo x y) = ''M'' @ fmt_1f x @ '' '' @ fmt_1f y"
| "commandText (LineTo x y) = '' L'' @ fmt_1f x @ '' '' @ fmt_1f y"
| "commandText ClosePath = '' Z''"

fun isVertexCommand :: "path_cmd \<Rightarrow> bool" where
  "isVertexCommand ClosePath = False"
| "isVertexCommand c = True"

definition spec_ringPath :: "(real \<Rightarrow> real \<Rightarrow> real \<times> real) \<Rightarrow> ring \<Rightarrow> string" where
  "spec_ringPath toScreen ring =
     (if ring = [] then ''M Z'' else concat (map commandText (ringCommands toScreen ring)))"

definition spec_paths :: "(real \<Rightarrow> real \<Rightarrow> real \<times> real) \<Rightarrow> geometry \<Rightarrow> string list" where
  "spec_paths toScreen g =
     (if Type g = ''Polygon'' then map (spec_ringPath toScreen) (Polygon g)
      else if Type g = ''MultiPolygon'' then map (spec_ringPath toScreen) (concat (MultiPolygon g))
      else [])"

subsection \<open>The scene\<close>

text \<open>The path element of a region as the specification describes it: the paths of its
  geometry, each followed by a space, and the style of its level. A feature can be drawn
  when its id is a number and its geometry is there, with well-formed positions.\<close>

definition spec_style :: "int \<Rightarrow> real \<Rightarrow> string" where
  "spec_style lvl multiplier =
     ''fill:'' @ intensityToColor lvl @ '';stroke:#a1a1aa;stroke-width:'' @
     fmt_1f (4 / 10 * multiplier) @ '';fill-opacity:0.8''"

definition spec_regionPath ::
  "(real \<Rightarrow> real \<Rightarrow> real \<times> real) \<Rightarrow> (int \<rightharpoonup> int) \<Rightarrow> real \<Rightarrow> feature \<Rightarrow> svg_elem" where
  "spec_regionPath toScreen scaleMap multiplier f =
     SvgPath (concat (map (\<lambda>p. p @ '' '')
                (case Geometry f of None \<Rightarrow> [] | Some g \<Rightarrow> spec_paths toScreen g)))
             (spec_style (level scaleMap f) multiplier)"

definition drawable :: "feature \<Rightarrow> bool" where
  "drawable f =
     (hasNumericId f \<and> (case Geometry f of None \<Rightarrow> False | Some g \<Rightarrow> positionsOk g))"

subsection \<open>Labels\<close>

text \<open>Labels as the specification describes them: the unweighted mean of the vertices
  of a ring, the ring that stands for a geometry, and the text drawn for a region. A
  feature can be labelled when its id is a number and, if it is active, the ring that
  stands for its geometry is there, is not empty and has well-formed positions.\<close>

definition spec_mean :: "ring \<Rightarrow> real \<times> real" where
  "spec_mean ring =
     (sum_list (map (\<lambda>c. c ! 0) ring) / real (length ring),
      sum_list (map (\<lambda>c. c ! 1) ring) / real (length ring))"

definition spec_centroid :: "geometry \<Rightarrow> real \<times> real" where
  "spec_centroid g =
     (if Type g = ''Polygon'' then
        (case Polygon g of ring # rest \<Rightarrow> spec_mean ring | [] \<Rightarrow> (0, 0))
      else if Type g = ''MultiPolygon'' then
        (case MultiPolygon g of (ring # rest) # others \<Rightarrow> spec_mean ring | _ \<Rightarrow> (0, 0))
      else (0, 0))"

definition spec_label ::
  "(real \<Rightarrow> real \<Rightarrow> real \<times> real) \<Rightarrow> (int \<rightharpoonup> int) \<Rightarrow> feature \<Rightarrow> draw_cmd" where
  "spec_label toScreen scaleMap f =
     (case Geometry f of
        None \<Rightarrow> DrawString [] 0 0
      | Some g \<Rightarrow>
          (case toScreen (fst (spec_centroid g)) (snd (spec_centroid g)) of
             (x, y) \<Rightarrow> DrawString (fmt_d (level scaleMap f)) (go_int x - 5) (go_int y + 5)))"

definition spec_footer :: "string \<Rightarrow> real \<Rightarrow> int \<Rightarrow> draw_cmd" where
  "spec_footer footerText multiplier h =
     DrawString (if footerText = [] then ''Code available under the MIT License (GitHub: evacuate).''
                 else footerText)
       (go_int (10 * multiplier)) (h - go_int (14 * multiplier))"

definition firstRingOk :: "geometry \<Rightarrow> bool" where
  "firstRingOk g =
     (if Type g = ''Polygon'' then
        (case Polygon g of ring # rest \<Rightarrow> ring \<noteq> [] \<and> ringOk ring | [] \<Rightarrow> False)
      else if Type g = ''MultiPolygon'' then
        (case MultiPolygon g of
           (ring # rest) # others \<Rightarrow> ring \<noteq> [] \<and> ringOk ring
         | _ \<Rightarrow> False)
      else True)"

definition labelable :: "(int \<rightharpoonup> int) \<Rightarrow> feature \<Rightarrow> bool" where
  "labelable scaleMap f =
     (hasNumericId f \<and>
      (level scaleMap f \<noteq> 0 \<longrightarrow>
         (case Geometry f of None \<Rightarrow> False | Some g \<Rightarrow> firstRingOk g)))"

subsection \<open>The image of a request\<close>

text \<open>The image of a request whose bounds are \<open>b\<close>: the scene and the texts above, on
  the canvas of the multiplier.\<close>

definition spec_image ::
  "(int \<rightharpoonup> int) \<Rightarrow> real \<Rightarrow> string \<Rightarrow> bool \<Rightarrow> feature list \<Rightarrow> bounds \<Rightarrow> image" where
  "spec_image scaleMap multiplier footer showLabels fc b =
     (let w = 1280 * multiplier; h = 720 * multiplier; toScreen = funcToScreen w h b
      in \<lparr>scene = SvgStart (go_int w) (go_int h) #
                   SvgRect 0 0 (go_int w) (go_int h) ''fill:#18181b'' #
                   map (spec_regionPath toScreen scaleMap multiplier) fc @ [SvgEnd],
          width = go_int w, height = go_int h,
          texts = (if showLabels
                   then map (spec_label toScreen scaleMap) (filter (\<lambda>f. 0 < level scaleMap f) fc)
                   else []) @
                  [spec_footer footer multiplier (go_int h)]\<rparr>)"

subsection \<open>Concrete inputs\<close>

text \<open>A square around the origin, two triangles far from it, a point, and features
  made of them; and the bounds of the square.\<close>

definition example_square :: geometry where
  "example_square =
     \<lparr>Type = ''Polygon'',
      Polygon = [[[- 20, - 10], [20, - 10], [20, 10], [- 20, 10], [- 20, - 10]]],
      MultiPolygon = []\<rparr>"

definition example_islands :: geometry where
  "example_islands =
     \<lparr>Type = ''MultiPolygon'', Polygon = [],
      MultiPolygon = [[[[30, 20], [40, 20], [40, 30], [30, 20]]],
                      [[[50, 40], [60, 40], [60, 50], [50, 40]]]]\<rparr>"

definition example_point :: geometry where
  "example_point = \<lparr>Type = ''Point'', Polygon = [], MultiPolygon = []\<rparr>"

definition example_feature :: "real \<Rightarrow> geometry \<Rightarrow> feature" where
  "example_feature i g = \<lparr>Properties = [''id'' \<mapsto> JNumber i], Geometry = Some g\<rparr>"

definition example_text_id :: feature where
  "example_text_id =
     \<lparr>Properties = [''id'' \<mapsto> JString ''13''], Geometry = Some example_square\<rparr>"

definition example_bounds :: bounds where
  "example_bounds = \<lparr>minLon = - 20, minLat = - 10, maxLon = 20, maxLat = 10\<rparr>"

section \<open>Properties of the colour ramp\<close>

text \<open>
  Claim C4, as stated, fails above level 7: the colour returned for level 8 is none of
  the eight entries of the palette, so it is not one of its two highest tiers.
\<close>

theorem fallback_colour_counterexample:
  "(7::int) < 8 \<and> intensityToColor 8 = ''#4a044e'' \<and> intensityToColor 8 \<notin> set spec_palette \<and>
   intensityToColor 8 \<noteq> intensityToColor 7 \<and> intensityToColor 8 \<noteq> intensityToColor 6"
  by (simp add: intensityToColor_def spec_palette_def)

text \<open>
  Claim C4, amended. Each level from 0 to 7 has its own palette entry. Every level
  above 7 takes the default branch, whose tests are tried in the order "above 6", then
  "above 5", then the base colour: since such a level is above 6, the result is always
  the colour \<^verbatim>\<open>#4a044e\<close> of the first test, which is not an entry of the palette, and the
  colour \<^verbatim>\<open>#b91c1c\<close> of the second test is returned for no level at all.
\<close>

theorem intensityToColor_palette:
  "(0 \<le> lvl \<and> lvl \<le> 7 \<longrightarrow> intensityToColor lvl = spec_palette ! nat lvl) \<and>
   (7 < lvl \<longrightarrow>
      intensityToColor lvl =
        (if lvl > 6 then ''#4a044e'' else if lvl > 5 then ''#b91c1c'' else ''#27272a'') \<and>
      intensityToColor lvl = ''#4a044e'') \<and>
   ''#4a044e'' \<notin> set spec_palette \<and>
   intensityToColor lvl \<noteq> ''#b91c1c''"
proof (intro conjI impI)
  assume "0 \<le> lvl \<and> lvl \<le> 7"
  then have "lvl = 0 \<or> lvl = 1 \<or> lvl = 2 \<or> lvl = 3 \<or> lvl = 4 \<or> lvl = 5 \<or>
      lvl = 6 \<or> lvl = 7"
    by arith
  then show "intensityToColor lvl = spec_palette ! nat lvl"
    by (auto simp: intensityToColor_def spec_palette_def)
next
  assume "7 < lvl"
  then show "intensityToColor lvl =
      (if lvl > 6 then ''#4a044e'' else if lvl > 5 then ''#b91c1c'' else ''#27272a'')"
    and "intensityToColor lvl = ''#4a044e''"
    by (simp_all add: intensityToColor_def)
next
  show "''#4a044e'' \<notin> set spec_palette" by (simp add: spec_palette_def)
  show "intensityToColor lvl \<noteq> ''#b91c1c''" by (simp add: intensityToColor_def)
qed

theorem intensityToColor_palette_witness:
  "(0::int) \<le> 3 \<and> (3::int) \<le> 7 \<and> intensityToColor 3 = ''#facc15'' \<and>
   (7::int) < 9 \<and> intensityToColor 9 = ''#4a044e''"
  using intensityToColor_palette [of 3] intensityToColor_palette [of 9]
  by (simp add: spec_palette_def)

section \<open>Properties of loops and of the bounds\<close>

lemma range_loop_invariant:
  assumes run: "range_loop body xs s = Inr t"
    and step: "\<And>u x u'. body u x = Inr u' \<Longrightarrow> R u u' \<and> P u' x"
    and refl: "\<And>u. R u u"
    and trans: "\<And>a b c. R a b \<Longrightarrow> R b c \<Longrightarrow> R a c"
    and mono: "\<And>u u' x. P u x \<Longrightarrow> R u u' \<Longrightarrow> P u' x"
  shows "R s t \<and> (\<forall>x\<in>set xs. P t x)"
  using run
proof (induction xs arbitrary: s)
  case Nil
  then show ?case by (simp add: refl)
next
  case (Cons x xs)
  from Cons.prems obtain u where u: "body s x = Inr u" and rest: "range_loop body xs u = Inr t"
    by (auto split: sum.splits)
  from step [OF u] have 1: "R s u" and 2: "P u x" by auto
  from Cons.IH [OF rest] have 3: "R u t" and 4: "\<forall>y\<in>set xs. P t y" by auto
  show ?case using trans [OF 1 3] mono [OF 2 3] 4 by simp
qed

lemma range_loop_total:
  assumes ok: "\<And>u x. x \<in> set xs \<Longrightarrow> \<exists>u'. body u x = Inr u'"
  shows "\<exists>t. range_loop body xs s = Inr t"
  using ok
proof (induction xs arbitrary: s)
  case Nil
  then show ?case by simp
next
  case (Cons x xs)
  from Cons.prems [of x s] obtain u where u: "body s x = Inr u" by auto
  from Cons.IH [of u] Cons.prems obtain t where "range_loop body xs u = Inr t" by auto
  with u show ?case by simp
qed

lemma wider_refl: "wider b b"
  by (simp add: wider_def)

lemma wider_trans: "wider a b \<Longrightarrow> wider b c \<Longrightarrow> wider a c"
  by (auto simp: wider_def)

lemma inside_wider: "inside b c \<Longrightarrow> wider b b' \<Longrightarrow> inside b' c"
  by (auto simp: inside_def wider_def)

lemma widen_step: "widen b c = Inr b' \<Longrightarrow> wider b b' \<and> inside b' c"
  by (auto simp: widen_def wider_def inside_def min_f_def max_f_def Let_def split: if_splits)

lemma widenRing_step:
  assumes "widenRing b ring = Inr b'"
  shows "wider b b' \<and> (\<forall>c\<in>set ring. inside b' c)"
  using assms unfolding widenRing_def
  by (rule range_loop_invariant) (auto intro: wider_refl wider_trans inside_wider dest: widen_step)

lemma widenPolygon_step:
  assumes "widenPolygon b rings = Inr b'"
  shows "wider b b' \<and> (\<forall>ring\<in>set rings. \<forall>c\<in>set ring. inside b' c)"
  using assms unfolding widenPolygon_def
  by (rule range_loop_invariant [where P = "\<lambda>b ring. \<forall>c\<in>set ring. inside b c"])
     (auto intro: wider_refl wider_trans inside_wider dest: widenRing_step)

lemma widenMultiPolygon_step:
  assumes "widenMultiPolygon b polygons = Inr b'"
  shows "wider b b' \<and> (\<forall>rings\<in>set polygons. \<forall>ring\<in>set rings. \<forall>c\<in>set ring. inside b' c)"
  using assms unfolding widenMultiPolygon_def
  by (rule range_loop_invariant [where P = "\<lambda>b rings. \<forall>ring\<in>set rings. \<forall>c\<in>set ring. inside b c"])
     (auto intro: wider_refl wider_trans inside_wider dest: widenPolygon_step)

lemma boundsFeature_step:
  assumes "boundsFeature scaleMap b f = Inr b'"
  shows "wider b b' \<and> covered scaleMap b' f"
proof (cases "featureId f")
  case (Inl e)
  with assms show ?thesis by (simp add: boundsFeature_def)
next
  case (Inr i)
  show ?thesis
  proof (cases "scaleAt scaleMap i = 0")
    case True
    with assms Inr show ?thesis
      by (auto simp: boundsFeature_def covered_def active_def wider_refl split: option.splits)
  next
    case False
    with assms Inr obtain g where g: "Geometry f = Some g"
      by (auto simp: boundsFeature_def split: option.splits)
    show ?thesis
      using assms Inr False g
      by (auto simp: boundsFeature_def covered_def active_def vertices_def wider_refl
               dest: widenPolygon_step widenMultiPolygon_step split: if_splits)
  qed
qed

lemma covered_wider: "covered scaleMap b f \<Longrightarrow> wider b b' \<Longrightarrow> covered scaleMap b' f"
  by (auto simp: covered_def inside_wider split: option.splits)

lemma calculateBounds_covered:
  assumes "calculateBounds fc scaleMap = Inr b"
  shows "\<forall>f\<in>set fc. covered scaleMap b f"
proof -
  have "wider initialBounds b \<and> (\<forall>f\<in>set fc. covered scaleMap b f)"
    using assms unfolding calculateBounds_def
    by (rule range_loop_invariant)
       (auto intro: wider_refl wider_trans covered_wider dest: boundsFeature_step)
  then show ?thesis by simp
qed

lemma featureId_numeric: "hasNumericId f \<Longrightarrow> \<exists>i. featureId f = Inr i"
  by (auto simp: hasNumericId_def featureId_def split: option.splits json_value.splits)

lemma widen_total: "2 \<le> length c \<Longrightarrow> \<exists>b'. widen b c = Inr b'"
  by (simp add: widen_def Let_def)

lemma widenRing_total:
  assumes "\<forall>c\<in>set ring. 2 \<le> length c"
  shows "\<exists>b'. widenRing b ring = Inr b'"
  unfolding widenRing_def using assms by (intro range_loop_total widen_total) auto

lemma widenPolygon_total:
  assumes "\<forall>ring\<in>set rings. \<forall>c\<in>set ring. 2 \<le> length c"
  shows "\<exists>b'. widenPolygon b rings = Inr b'"
  unfolding widenPolygon_def using assms by (intro range_loop_total widenRing_total) auto

lemma widenMultiPolygon_total:
  assumes "\<forall>rings\<in>set polygons. \<forall>ring\<in>set rings. \<forall>c\<in>set ring. 2 \<le> length c"
  shows "\<exists>b'. widenMultiPolygon b polygons = Inr b'"
  unfolding widenMultiPolygon_def using assms by (intro range_loop_total widenPolygon_total) auto

lemma boundsFeature_total:
  assumes "boundsInputOk scaleMap f"
  shows "\<exists>b'. boundsFeature scaleMap b f = Inr b'"
proof -
  from assms obtain i where i: "featureId f = Inr i"
    using featureId_numeric by (auto simp: boundsInputOk_def)
  show ?thesis
  proof (cases "scaleAt scaleMap i = 0")
    case True
    with i show ?thesis by (simp add: boundsFeature_def)
  next
    case False
    with i assms obtain g where g: "Geometry f = Some g" and ok: "positionsOk g"
      by (auto simp: boundsInputOk_def active_def split: option.splits)
    show ?thesis
      using i False g ok widenPolygon_total [of "Polygon g" b]
        widenMultiPolygon_total [of "MultiPolygon g" b]
      by (auto simp: boundsFeature_def positionsOk_def vertices_def list_all_iff)
  qed
qed

lemma calculateBounds_total:
  assumes "list_all (boundsInputOk scaleMap) fc"
  shows "\<exists>b. calculateBounds fc scaleMap = Inr b"
  unfolding calculateBounds_def using assms
  by (intro range_loop_total boundsFeature_total) (auto simp: list_all_iff)

lemma boundsFeature_same:
  assumes "sameButInactiveGeometry scaleMap f f'"
  shows "boundsFeature scaleMap b f' = boundsFeature scaleMap b f"
proof -
  have id: "featureId f' = featureId f"
    using assms by (simp add: sameButInactiveGeometry_def featureId_def)
  show ?thesis
    using assms id
    by (auto simp: sameButInactiveGeometry_def boundsFeature_def inactive_def split: sum.splits)
qed

lemma range_loop_cong_all2:
  assumes "list_all2 (\<lambda>x y. \<forall>s. body s y = body s x) xs ys"
  shows "range_loop body ys s = range_loop body xs s"
  using assms by (induction arbitrary: s rule: list_all2_induct) (auto split: sum.splits)

lemma calculateBounds_same:
  assumes "list_all2 (sameButInactiveGeometry scaleMap) fc fc'"
  shows "calculateBounds fc' scaleMap = calculateBounds fc scaleMap"
  unfolding calculateBounds_def
  by (rule range_loop_cong_all2)
     (rule list_all2_mono [OF assms], simp add: boundsFeature_same)

lemma boundsFeature_inactive: "inactive scaleMap f \<Longrightarrow> boundsFeature scaleMap b f = Inr b"
  by (auto simp: inactive_def boundsFeature_def split: sum.splits)

lemma range_loop_skip:
  assumes "\<And>x s. x \<in> set xs \<Longrightarrow> body s x = Inr s"
  shows "range_loop body xs s = Inr s"
  using assms by (induction xs) auto

lemmas example_defs = example_square_def example_islands_def example_point_def example_feature_def

lemmas bounds_eval = calculateBounds_def boundsFeature_def featureId_def scaleAt_def go_int_def
  widenPolygon_def widenMultiPolygon_def widenRing_def widen_def initialBounds_def min_f_def max_f_def

text \<open>
  Claim C2. On a feature list whose ids are numbers and whose active features have a
  geometry with positions of at least two components, \<^verbatim>\<open>calculateBounds\<close> returns
  bounds. Whenever it returns bounds, every vertex of every active feature (level not 0),
  multi-polygons flattened, lies between the minima and the maxima on both axes. And
  changing the geometry of features whose level is 0 changes nothing in the result.
\<close>

theorem calculateBounds_contains_active:
  "(list_all (boundsInputOk scaleMap) fc \<longrightarrow> (\<exists>b. calculateBounds fc scaleMap = Inr b)) \<and>
   (calculateBounds fc scaleMap = Inr b \<longrightarrow>
      (\<forall>f\<in>set fc. \<forall>g. active scaleMap f \<and> Geometry f = Some g \<longrightarrow>
         (\<forall>c\<in>set (vertices g). inside b c))) \<and>
   (list_all2 (sameButInactiveGeometry scaleMap) fc fc' \<longrightarrow>
      calculateBounds fc' scaleMap = calculateBounds fc scaleMap)"
proof (intro conjI impI)
  assume "list_all (boundsInputOk scaleMap) fc"
  then show "\<exists>b. calculateBounds fc scaleMap = Inr b" by (rule calculateBounds_total)
next
  assume "calculateBounds fc scaleMap = Inr b"
  then have "\<forall>f\<in>set fc. covered scaleMap b f" by (rule calculateBounds_covered)
  then show "\<forall>f\<in>set fc. \<forall>g. active scaleMap f \<and> Geometry f = Some g \<longrightarrow>
      (\<forall>c\<in>set (vertices g). inside b c)"
    by (auto simp: covered_def)
next
  assume "list_all2 (sameButInactiveGeometry scaleMap) fc fc'"
  then show "calculateBounds fc' scaleMap = calculateBounds fc scaleMap"
    by (rule calculateBounds_same)
qed

theorem calculateBounds_contains_active_witness:
  "list_all (boundsInputOk [1 \<mapsto> 5]) [example_feature 1 example_square, example_feature 2 example_islands] \<and>
   calculateBounds [example_feature 1 example_square, example_feature 2 example_islands] [1 \<mapsto> 5]
     = Inr \<lparr>minLon = - 20, minLat = - 10, maxLon = 20, maxLat = 10\<rparr> \<and>
   inside \<lparr>minLon = - 20, minLat = - 10, maxLon = 20, maxLat = 10\<rparr> [20, 10] \<and>
   list_all2 (sameButInactiveGeometry [1 \<mapsto> 5])
     [example_feature 1 example_square, example_feature 2 example_islands]
     [example_feature 1 example_square, example_feature 2 example_point] \<and>
   calculateBounds [example_feature 1 example_square, example_feature 2 example_point] [1 \<mapsto> 5]
     = calculateBounds [example_feature 1 example_square, example_feature 2 example_islands] [1 \<mapsto> 5]"
proof -
  let ?fc = "[example_feature 1 example_square, example_feature 2 example_islands]"
  let ?fc' = "[example_feature 1 example_square, example_feature 2 example_point]"
  let ?b = "\<lparr>minLon = - 20, minLat = - 10, maxLon = 20, maxLat = 10\<rparr>"
  have ok: "list_all (boundsInputOk [1 \<mapsto> 5]) ?fc"
    by (simp add: boundsInputOk_def hasNumericId_def active_def positionsOk_def vertices_def
          featureId_def scaleAt_def go_int_def example_defs)
  have run: "calculateBounds ?fc [1 \<mapsto> 5] = Inr ?b"
    by (simp add: bounds_eval example_defs)
  have same: "list_all2 (sameButInactiveGeometry [1 \<mapsto> 5]) ?fc ?fc'"
    by (simp add: sameButInactiveGeometry_def inactive_def featureId_def scaleAt_def go_int_def
          example_defs)
  have act: "active [1 \<mapsto> 5] (example_feature 1 example_square)"
    by (simp add: active_def featureId_def scaleAt_def go_int_def example_defs)
  have v: "[20, 10] \<in> set (vertices example_square)"
    by (simp add: vertices_def example_defs)
  have g: "Geometry (example_feature 1 example_square) = Some example_square"
    by (simp add: example_defs)
  from calculateBounds_contains_active [of "[1 \<mapsto> 5]" ?fc ?b ?fc'] ok run same act v g
  show ?thesis by auto
qed

text \<open>
  Claim C8. When every feature has level 0 (or no level), the loop body never widens
  anything: the result is the four initial values 180, 90, -180 and -90, so both
  maxima are below the minima.
\<close>

theorem calculateBounds_no_active:
  "list_all (inactive scaleMap) fc \<Longrightarrow>
     calculateBounds fc scaleMap = Inr initialBounds \<and>
     initialBounds = \<lparr>minLon = 180, minLat = 90, maxLon = - 180, maxLat = - 90\<rparr> \<and>
     maxLon initialBounds < minLon initialBounds \<and> maxLat initialBounds < minLat initialBounds"
proof -
  assume "list_all (inactive scaleMap) fc"
  then have "calculateBounds fc scaleMap = Inr initialBounds"
    unfolding calculateBounds_def
    by (intro range_loop_skip boundsFeature_inactive) (simp add: list_all_iff)
  then show ?thesis by (simp add: initialBounds_def)
qed

theorem calculateBounds_no_active_witness:
  "list_all (inactive Map.empty) [example_feature 1 example_square, example_feature 2 example_islands] \<and>
   calculateBounds [example_feature 1 example_square, example_feature 2 example_islands] Map.empty =
     Inr \<lparr>minLon = 180, minLat = 90, maxLon = - 180, maxLat = - 90\<rparr>"
proof -
  have "list_all (inactive Map.empty) [example_feature 1 example_square, example_feature 2 example_islands]"
    by (simp add: inactive_def featureId_def scaleAt_def go_int_def example_defs)
  with calculateBounds_no_active [of Map.empty "[example_feature 1 example_square, example_feature 2 example_islands]"]
  show ?thesis by simp
qed

section \<open>Properties of the projection\<close>

lemma min_f_min: "min_f a b = min a b"
  by (simp add: min_f_def min_def)

text \<open>
  Claim C1. For bounds with \<^verbatim>\<open>minLon < maxLon\<close> and \<^verbatim>\<open>minLat < maxLat\<close> the closure
  computes the specification's formula: the distance from the centre of the bounds,
  corrected in longitude by the cosine of the centre latitude, times the smaller of
  the two scale candidates for a margin fraction of 0.1, plus the canvas centre; the
  latitude is inverted.
\<close>

theorem funcToScreen_formula:
  "minLon b < maxLon b \<and> minLat b < maxLat b \<longrightarrow>
   funcToScreen canvasWidth canvasHeight b lon lat =
     ((lon - spec_centerLon b) * spec_lonCorrection b * spec_scale canvasWidth canvasHeight (1 / 10) b
        + canvasWidth / 2,
      (spec_centerLat b - lat) * spec_scale canvasWidth canvasHeight (1 / 10) b + canvasHeight / 2)"
  by (simp add: funcToScreen_def Let_def min_f_min spec_centerLon_def spec_centerLat_def
        spec_lonCorrection_def spec_scale_def add.commute)

lemma funcToScreen_example: "funcToScreen 1280 720 example_bounds lon lat = (lon * (128 / 5) + 640, 360 - lat * (128 / 5))"
  by (simp add: funcToScreen_def Let_def min_f_def example_bounds_def)

theorem funcToScreen_formula_witness:
  "minLon example_bounds < maxLon example_bounds \<and> minLat example_bounds < maxLat example_bounds \<and>
   spec_centerLon example_bounds = 0 \<and> spec_centerLat example_bounds = 0 \<and>
   spec_lonCorrection example_bounds = 1 \<and> spec_scale 1280 720 (1 / 10) example_bounds = 128 / 5 \<and>
   funcToScreen 1280 720 example_bounds 20 10 = (1152, 104)"
  using funcToScreen_formula [of example_bounds 1280 720 20 10]
  by (simp add: example_bounds_def spec_centerLon_def spec_centerLat_def spec_lonCorrection_def
        spec_scale_def)

lemma lonCorrection_pos:
  assumes "- 90 < c" "c < 90"
  shows "0 < cos (c * pi / 180)"
proof (rule cos_gt_zero_pi)
  have "pi * (- 90) < pi * c" using assms(1) pi_gt_zero by (intro mult_strict_left_mono)
  then show "- (pi / 2) < c * pi / 180" by (simp add: field_simps)
  have "pi * c < pi * 90" using assms(2) pi_gt_zero by (intro mult_strict_left_mono)
  then show "c * pi / 180 < pi / 2" by (simp add: field_simps)
qed

lemma fit_scale:
  fixes ew eh lonSpan latSpan :: real
  assumes "0 \<le> ew" "0 \<le> eh" "0 < lonSpan" "0 < latSpan"
  defines "s \<equiv> min_f (ew / lonSpan) (eh / latSpan)"
  shows "0 \<le> s \<and> lonSpan * s \<le> ew \<and> latSpan * s \<le> eh"
proof -
  have s1: "s \<le> ew / lonSpan" and s2: "s \<le> eh / latSpan"
    by (simp_all add: s_def min_f_def)
  have "0 \<le> s" using assms by (simp add: s_def min_f_def)
  moreover have "lonSpan * s \<le> ew"
    using s1 assms(3) by (simp add: pos_le_divide_eq mult.commute)
  moreover have "latSpan * s \<le> eh"
    using s2 assms(4) by (simp add: pos_le_divide_eq mult.commute)
  ultimately show ?thesis by simp
qed

lemma funcToScreen_offsets:
  assumes lon: "minLon b < maxLon b" and lat: "minLat b < maxLat b"
    and mid: "- 90 < (maxLat b + minLat b) / 2" "(maxLat b + minLat b) / 2 < 90"
    and canvas: "0 < w" "0 < h"
  shows "\<exists>s c. 0 < c \<and> 0 \<le> s \<and>
    (maxLon b - minLon b) * c * s \<le> w * (4 / 5) \<and> (maxLat b - minLat b) * s \<le> h * (4 / 5) \<and>
    (\<forall>lon lat. funcToScreen w h b lon lat =
        ((lon - (maxLon b + minLon b) / 2) * c * s + w / 2, ((maxLat b + minLat b) / 2 - lat) * s + h / 2))"
proof -
  define c where "c = cos ((maxLat b + minLat b) / 2 * pi / 180)"
  define s where "s = min_f (w * (1 - 2 * (1 / 10)) / ((maxLon b - minLon b) * c))
                            (h * (1 - 2 * (1 / 10)) / (maxLat b - minLat b))"
  have c: "0 < c" unfolding c_def using mid by (rule lonCorrection_pos)
  have span: "0 < (maxLon b - minLon b) * c" using lon c by simp
  have "0 \<le> s \<and> (maxLon b - minLon b) * c * s \<le> w * (1 - 2 * (1 / 10)) \<and>
        (maxLat b - minLat b) * s \<le> h * (1 - 2 * (1 / 10))"
    unfolding s_def using canvas span lat by (intro fit_scale) simp_all
  then have s: "0 \<le> s" "(maxLon b - minLon b) * c * s \<le> w * (4 / 5)"
    "(maxLat b - minLat b) * s \<le> h * (4 / 5)" by simp_all
  have "\<And>lon lat. funcToScreen w h b lon lat =
        ((lon - (maxLon b + minLon b) / 2) * c * s + w / 2, ((maxLat b + minLat b) / 2 - lat) * s + h / 2)"
    by (simp add: funcToScreen_def Let_def c_def s_def)
  with c s show ?thesis by blast
qed

lemma centred_offset:
  fixes p w :: real
  assumes "0 \<le> p" "p \<le> w * (4 / 5)" "0 < w"
  shows "w * (1 / 10) \<le> p / 2 + w / 2" "p / 2 + w / 2 \<le> w * (9 / 10)"
    "w * (1 / 10) \<le> - p / 2 + w / 2" "- p / 2 + w / 2 \<le> w * (9 / 10)"
  using assms by simp_all

text \<open>
  The corners of the bounds. The projection centres the bounds on the canvas and
  scales them by the smaller of the two candidates, so in exact arithmetic the
  projected bounds fill the drawing rectangle along one axis and fit inside it along
  the other. The lemmas below are facts of that exact arithmetic. They say nothing
  about the \<^verbatim>\<open>float64\<close> values the Go code computes at the corners: along the axis
  that fixes the scale the exact corner lies on the edge of the rectangle
  (\<open>binding_corner_on_edge\<close>), so which side of the edge the computed value falls on is
  decided by the rounding of each operation, which the model does not have.
\<close>

lemma corners_inside_drawing_rect:
  assumes "minLon b < maxLon b" and "minLat b < maxLat b"
    and "- 90 < (maxLat b + minLat b) / 2" and "(maxLat b + minLat b) / 2 < 90"
    and "0 < w" and "0 < h"
    and "lon = minLon b \<or> lon = maxLon b" and "lat = minLat b \<or> lat = maxLat b"
  shows "inDrawingRect w h (funcToScreen w h b lon lat)"
proof -
  from assms(1-6) obtain s c where c: "0 < c" and s: "0 \<le> s"
    and sx: "(maxLon b - minLon b) * c * s \<le> w * (4 / 5)"
    and sy: "(maxLat b - minLat b) * s \<le> h * (4 / 5)"
    and f: "\<And>lon lat. funcToScreen w h b lon lat =
        ((lon - (maxLon b + minLon b) / 2) * c * s + w / 2, ((maxLat b + minLat b) / 2 - lat) * s + h / 2)"
    using funcToScreen_offsets [of b w h] by blast
  define p where "p = (maxLon b - minLon b) * c * s"
  define q where "q = (maxLat b - minLat b) * s"
  have p: "0 \<le> p" "p \<le> w * (4 / 5)" using assms(1) c s sx by (simp_all add: p_def)
  have q: "0 \<le> q" "q \<le> h * (4 / 5)" using assms(2) s sy by (simp_all add: q_def)
  have x1: "(minLon b - (maxLon b + minLon b) / 2) * c * s = - p / 2"
    and x2: "(maxLon b - (maxLon b + minLon b) / 2) * c * s = p / 2"
    by (simp_all add: p_def algebra_simps)
  have y1: "((maxLat b + minLat b) / 2 - minLat b) * s = q / 2"
    and y2: "((maxLat b + minLat b) / 2 - maxLat b) * s = - q / 2"
    by (simp_all add: q_def algebra_simps)
  have X: "w * (1 / 10) \<le> fst (funcToScreen w h b lon lat) \<and>
           fst (funcToScreen w h b lon lat) \<le> w * (9 / 10)"
    using assms(7)
  proof
    assume "lon = minLon b"
    then show ?thesis using centred_offset [OF p assms(5)] by (simp only: f fst_conv x1, (simp)?)
  next
    assume "lon = maxLon b"
    then show ?thesis using centred_offset [OF p assms(5)] by (simp only: f fst_conv x2, (simp)?)
  qed
  have Y: "h * (1 / 10) \<le> snd (funcToScreen w h b lon lat) \<and>
           snd (funcToScreen w h b lon lat) \<le> h * (9 / 10)"
    using assms(8)
  proof
    assume "lat = minLat b"
    then show ?thesis using centred_offset [OF q assms(6)] by (simp only: f snd_conv y1, (simp)?)
  next
    assume "lat = maxLat b"
    then show ?thesis using centred_offset [OF q assms(6)] by (simp only: f snd_conv y2, (simp)?)
  qed
  from X Y show ?thesis by (simp add: inDrawingRect_def)
qed

lemma fit_scale_binding:
  fixes ew eh lonSpan latSpan :: real
  assumes "0 < lonSpan" "0 < latSpan"
  defines "s \<equiv> min_f (ew / lonSpan) (eh / latSpan)"
  shows "lonSpan * s = ew \<or> latSpan * s = eh"
  using assms(1,2) by (auto simp: s_def min_f_def)

lemma binding_corner_on_edge:
  assumes "minLon b < maxLon b" and "minLat b < maxLat b"
    and "- 90 < (maxLat b + minLat b) / 2" and "(maxLat b + minLat b) / 2 < 90"
  shows "fst (funcToScreen w h b (maxLon b) (maxLat b)) = w * (9 / 10) \<or>
         snd (funcToScreen w h b (minLon b) (minLat b)) = h * (9 / 10)"
proof -
  define c where "c = cos ((maxLat b + minLat b) / 2 * pi / 180)"
  define s where "s = min_f (w * (1 - 2 * (1 / 10)) / ((maxLon b - minLon b) * c))
                            (h * (1 - 2 * (1 / 10)) / (maxLat b - minLat b))"
  have c: "0 < c" unfolding c_def using assms(3,4) by (rule lonCorrection_pos)
  have span: "0 < (maxLon b - minLon b) * c" using assms(1) c by simp
  have lat: "0 < maxLat b - minLat b" using assms(2) by simp
  have f: "funcToScreen w h b lon lat =
        ((lon - (maxLon b + minLon b) / 2) * c * s + w / 2, ((maxLat b + minLat b) / 2 - lat) * s + h / 2)"
    for lon lat
    by (simp add: funcToScreen_def Let_def c_def s_def)
  have x: "(maxLon b - (maxLon b + minLon b) / 2) * c * s = ((maxLon b - minLon b) * c * s) / 2"
    and y: "((maxLat b + minLat b) / 2 - minLat b) * s = ((maxLat b - minLat b) * s) / 2"
    by (simp_all add: algebra_simps)
  from fit_scale_binding [OF span lat, of "w * (1 - 2 * (1 / 10))" "h * (1 - 2 * (1 / 10))"]
  have "(maxLon b - minLon b) * c * s = w * (4 / 5) \<or> (maxLat b - minLat b) * s = h * (4 / 5)"
    by (simp add: s_def)
  then show ?thesis
  proof
    assume "(maxLon b - minLon b) * c * s = w * (4 / 5)"
    then have "fst (funcToScreen w h b (maxLon b) (maxLat b)) = w * (9 / 10)"
      by (simp only: f fst_conv x, (simp)?)
    then show ?thesis ..
  next
    assume "(maxLat b - minLat b) * s = h * (4 / 5)"
    then have "snd (funcToScreen w h b (minLon b) (minLat b)) = h * (9 / 10)"
      by (simp only: f snd_conv y, (simp)?)
    then show ?thesis ..
  qed
qed

lemma corners_inside_geographic:
  assumes "minLon b < maxLon b" and "minLat b < maxLat b"
    and "- 90 \<le> minLat b" and "maxLat b \<le> 90"
    and "0 < w" and "0 < h"
    and "lon = minLon b \<or> lon = maxLon b" and "lat = minLat b \<or> lat = maxLat b"
  shows "inDrawingRect w h (funcToScreen w h b lon lat)"
proof -
  have "- 90 < (maxLat b + minLat b) / 2" "(maxLat b + minLat b) / 2 < 90"
    using assms(2,3,4) by simp_all
  with assms show ?thesis by (intro corners_inside_drawing_rect)
qed

section \<open>Properties of the intensity assignment\<close>

lemma storeIntensity_valid: "validScale q \<Longrightarrow> storeIntensity m q = Inr (m(ID q \<mapsto> Scale q))"
  by (auto simp: storeIntensity_def validScale_def)

lemma store_loop_valid:
  "list_all validScale qs \<Longrightarrow> range_loop storeIntensity qs m = Inr (assignAll qs m)"
  by (induction qs arbitrary: m) (simp_all add: storeIntensity_valid)

lemma assignAll_append: "assignAll (xs @ ys) m = assignAll ys (assignAll xs m)"
  by (induction xs arbitrary: m) simp_all

lemma assignAll_other: "k \<notin> ID ` set qs \<Longrightarrow> assignAll qs m k = m k"
  by (induction qs arbitrary: m) simp_all

lemma assignAll_last:
  "ID q \<notin> ID ` set ys \<Longrightarrow> assignAll (xs @ q # ys) m (ID q) = Some (Scale q)"
  by (simp add: assignAll_append assignAll_other)

lemma assignAll_agree:
  "\<forall>x. x \<noteq> k \<longrightarrow> m x = m' x \<Longrightarrow> x \<noteq> k \<Longrightarrow> assignAll ys m x = assignAll ys m' x"
proof (induction ys arbitrary: m m')
  case Nil
  then show ?case by simp
next
  case (Cons y ys)
  have "assignAll ys (m(ID y \<mapsto> Scale y)) x = assignAll ys (m'(ID y \<mapsto> Scale y)) x"
    by (rule Cons.IH) (use Cons.prems in simp_all)
  then show ?case by (simp only: assignAll.simps)
qed

lemma assignAll_overwritten:
  "(assignAll ys (m(k \<mapsto> v')))(k \<mapsto> v) = (assignAll ys m)(k \<mapsto> v)"
proof (rule ext)
  fix x
  show "((assignAll ys (m(k \<mapsto> v')))(k \<mapsto> v)) x = ((assignAll ys m)(k \<mapsto> v)) x"
  proof (cases "x = k")
    case True
    then show ?thesis by simp
  next
    case False
    then have "assignAll ys (m(k \<mapsto> v')) x = assignAll ys m x"
      by (intro assignAll_agree [where k = k]) simp_all
    with False show ?thesis by simp
  qed
qed

lemma assignAll_drop_earlier:
  assumes "ID q' = ID q"
  shows "assignAll (xs @ q' # ys @ q # zs) m = assignAll (xs @ ys @ q # zs) m"
proof -
  have "(assignAll ys ((assignAll xs m)(ID q \<mapsto> Scale q')))(ID q \<mapsto> Scale q)
      = (assignAll ys (assignAll xs m))(ID q \<mapsto> Scale q)"
    by (rule assignAll_overwritten)
  then show ?thesis using assms by (simp add: assignAll_append)
qed

text \<open>
  Claim C10. For a list of pairs whose levels are all within 0..7 the handler builds an
  assignment, which maps the id of a pair that no later pair repeats to that pair's
  level. A pair whose id a later pair repeats can be removed from the list: the
  assignment, and with it the whole result of the handler, stays the same.
\<close>

theorem buildScaleMap_last_wins:
  "(list_all validScale intensities \<longrightarrow>
      (\<exists>scaleMap. buildScaleMap intensities = Inr scaleMap \<and>
         (\<forall>xs q ys. intensities = xs @ q # ys \<and> ID q \<notin> ID ` set ys \<longrightarrow>
            scaleMap (ID q) = Some (Scale q)))) \<and>
   (list_all validScale (xs @ q' # ys @ q # zs) \<and> ID q' = ID q \<longrightarrow>
      buildScaleMap (xs @ q' # ys @ q # zs) = buildScaleMap (xs @ ys @ q # zs) \<and>
      mapHandler (xs @ q' # ys @ q # zs) size_param footer scale_text fc =
        mapHandler (xs @ ys @ q # zs) size_param footer scale_text fc)"
proof (intro conjI impI)
  assume "list_all validScale intensities"
  then have "buildScaleMap intensities = Inr (assignAll intensities Map.empty)"
    by (simp add: buildScaleMap_def store_loop_valid)
  then show "\<exists>scaleMap. buildScaleMap intensities = Inr scaleMap \<and>
         (\<forall>xs q ys. intensities = xs @ q # ys \<and> ID q \<notin> ID ` set ys \<longrightarrow>
            scaleMap (ID q) = Some (Scale q))"
    using assignAll_last by blast
next
  assume a: "list_all validScale (xs @ q' # ys @ q # zs) \<and> ID q' = ID q"
  then have v: "list_all validScale (xs @ ys @ q # zs)" by simp
  show eq: "buildScaleMap (xs @ q' # ys @ q # zs) = buildScaleMap (xs @ ys @ q # zs)"
    using a v assignAll_drop_earlier [of q' q xs ys zs Map.empty]
    by (simp only: buildScaleMap_def store_loop_valid)
  show "mapHandler (xs @ q' # ys @ q # zs) size_param footer scale_text fc =
        mapHandler (xs @ ys @ q # zs) size_param footer scale_text fc"
    by (simp only: mapHandler_def eq)
qed

theorem buildScaleMap_last_wins_witness:
  "list_all validScale [\<lparr>ID = 13, Scale = 2\<rparr>, \<lparr>ID = 1, Scale = 3\<rparr>, \<lparr>ID = 13, Scale = 5\<rparr>] \<and>
   buildScaleMap [\<lparr>ID = 13, Scale = 2\<rparr>, \<lparr>ID = 1, Scale = 3\<rparr>, \<lparr>ID = 13, Scale = 5\<rparr>] =
     Inr [1 \<mapsto> 3, 13 \<mapsto> 5] \<and>
   buildScaleMap [\<lparr>ID = 13, Scale = 2\<rparr>, \<lparr>ID = 1, Scale = 3\<rparr>, \<lparr>ID = 13, Scale = 5\<rparr>] =
     buildScaleMap [\<lparr>ID = 1, Scale = 3\<rparr>, \<lparr>ID = 13, Scale = 5\<rparr>]"
proof -
  have v: "list_all validScale [\<lparr>ID = 13, Scale = 2\<rparr>, \<lparr>ID = 1, Scale = 3\<rparr>, \<lparr>ID = 13, Scale = 5\<rparr>]"
    by (simp add: validScale_def)
  have e: "buildScaleMap [\<lparr>ID = 13, Scale = 2\<rparr>, \<lparr>ID = 1, Scale = 3\<rparr>, \<lparr>ID = 13, Scale = 5\<rparr>] =
     Inr [1 \<mapsto> 3, 13 \<mapsto> 5]"
    by (simp add: buildScaleMap_def storeIntensity_def fun_upd_twist)
  from buildScaleMap_last_wins [of "[\<lparr>ID = 13, Scale = 2\<rparr>, \<lparr>ID = 1, Scale = 3\<rparr>, \<lparr>ID = 13, Scale = 5\<rparr>]"
      "[]" "\<lparr>ID = 13, Scale = 2\<rparr>" "[\<lparr>ID = 1, Scale = 3\<rparr>]" "\<lparr>ID = 13, Scale = 5\<rparr>" "[]"] v e
  show ?thesis by simp
qed

section \<open>Properties of the paths\<close>

lemma range_loop_collect:
  assumes "\<And>acc x. x \<in> set xs \<Longrightarrow> body acc x = Inr (acc @ [h x])"
  shows "range_loop body xs acc = Inr (acc @ map h xs)"
  using assms by (induction xs arbitrary: acc) simp_all

lemma range_loop_collect_lists:
  assumes "\<And>acc x. x \<in> set xs \<Longrightarrow> body acc x = Inr (acc @ h x)"
  shows "range_loop body xs acc = Inr (acc @ concat (map h xs))"
  using assms by (induction xs arbitrary: acc) simp_all

lemma pathStep_later:
  assumes "2 \<le> length c"
  shows "pathStep toScreen (Suc i, s) c =
           Inr (Suc (Suc i), s @ commandText (case project toScreen c of (x, y) \<Rightarrow> LineTo x y))"
  using assms by (simp add: pathStep_def project_def split: prod.splits)

lemma pathStep_first:
  assumes "2 \<le> length c"
  shows "pathStep toScreen (0, ''M'') c =
           Inr (Suc 0, commandText (case project toScreen c of (x, y) \<Rightarrow> MoveTo x y))"
  using assms by (simp add: pathStep_def project_def split: prod.splits)

lemma path_loop_later:
  assumes "ringOk vs"
  shows "range_loop (pathStep toScreen) vs (Suc i, s) =
           Inr (Suc i + length vs,
                s @ concat (map (\<lambda>u. commandText (case project toScreen u of (x, y) \<Rightarrow> LineTo x y)) vs))"
  using assms
proof (induction vs arbitrary: i s)
  case Nil
  then show ?case by simp
next
  case (Cons v vs)
  then have v: "2 \<le> length v" and vs: "ringOk vs" by (simp_all add: ringOk_def)
  show ?case by (simp add: pathStep_later [OF v] Cons.IH [OF vs])
qed

lemma ringPath_ok:
  assumes "ringOk ring"
  shows "ringPath toScreen ring = Inr (spec_ringPath toScreen ring)"
proof (cases ring)
  case Nil
  then show ?thesis by (simp add: ringPath_def spec_ringPath_def)
next
  case (Cons v vs)
  with assms have v: "2 \<le> length v" and vs: "ringOk vs" by (simp_all add: ringOk_def)
  show ?thesis
    unfolding Cons
    by (simp add: ringPath_def spec_ringPath_def ringCommands_def pathStep_first [OF v]
          path_loop_later [OF vs] comp_def del: commandText.simps(1,2))
qed

lemma ringCommands_vertices:
  "length (filter isVertexCommand (ringCommands toScreen ring)) = length ring"
proof (cases ring)
  case Nil
  then show ?thesis by (simp add: ringCommands_def)
next
  case (Cons v vs)
  have "filter isVertexCommand (map (\<lambda>u. case project toScreen u of (x, y) \<Rightarrow> LineTo x y) vs)
          = map (\<lambda>u. case project toScreen u of (x, y) \<Rightarrow> LineTo x y) vs"
    by (induction vs) (auto split: prod.splits)
  then show ?thesis
    unfolding Cons by (simp add: ringCommands_def split: prod.splits)
qed

lemma polygonPaths_ok:
  assumes "list_all ringOk rings"
  shows "polygonPaths toScreen paths rings = Inr (paths @ map (spec_ringPath toScreen) rings)"
  unfolding polygonPaths_def using assms
  by (intro range_loop_collect) (simp add: appendRingPath_def ringPath_ok list_all_iff)

lemma multiPolygonPaths_ok:
  assumes "list_all (list_all ringOk) polygons"
  shows "multiPolygonPaths toScreen paths polygons =
           Inr (paths @ map (spec_ringPath toScreen) (concat polygons))"
proof -
  have "multiPolygonPaths toScreen paths polygons =
          Inr (paths @ concat (map (map (spec_ringPath toScreen)) polygons))"
    unfolding multiPolygonPaths_def using assms
    by (intro range_loop_collect_lists) (simp add: polygonPaths_ok list_all_iff)
  then show ?thesis by (simp add: map_concat)
qed

lemma positionsOk_Polygon: "Type g = ''Polygon'' \<Longrightarrow> positionsOk g = list_all ringOk (Polygon g)"
  by (simp add: positionsOk_def vertices_def ringOk_def list_all_iff)

lemma positionsOk_MultiPolygon:
  "Type g = ''MultiPolygon'' \<Longrightarrow> positionsOk g = list_all (list_all ringOk) (MultiPolygon g)"
  by (simp add: positionsOk_def vertices_def ringOk_def list_all_iff)

lemma geometryPaths_ok:
  assumes "positionsOk g"
  shows "geometryPaths toScreen g = Inr (spec_paths toScreen g)"
  using assms
  by (auto simp: geometryPaths_def spec_paths_def positionsOk_Polygon positionsOk_MultiPolygon
        polygonPaths_ok multiPolygonPaths_ok)

text \<open>
  Claim C3. A ring whose positions have two components gives one path: the text of a
  move to its first projected vertex, of a line to each further projected vertex in
  order, and of the closing command (an empty ring gives \<^verbatim>\<open>M Z\<close>); the vertex commands of
  a path are as many as the vertices of its ring. A polygon gives the paths of its rings in
  order, and a multi-polygon those of all rings of all its polygons, as many as the
  rings in total.
\<close>

theorem geometryPaths_one_path_per_ring:
  "(ringOk ring \<longrightarrow> ringPath toScreen ring = Inr (spec_ringPath toScreen ring)) \<and>
   spec_ringPath toScreen (v # vs) =
     concat (map commandText
       ((case project toScreen v of (x, y) \<Rightarrow> MoveTo x y) #
        map (\<lambda>u. case project toScreen u of (x, y) \<Rightarrow> LineTo x y) vs @ [ClosePath])) \<and>
   length (filter isVertexCommand (ringCommands toScreen ring)) = length ring \<and>
   (Type g = ''Polygon'' \<and> positionsOk g \<longrightarrow>
      geometryPaths toScreen g = Inr (map (spec_ringPath toScreen) (Polygon g)) \<and>
      length (map (spec_ringPath toScreen) (Polygon g)) = length (Polygon g)) \<and>
   (Type g = ''MultiPolygon'' \<and> positionsOk g \<longrightarrow>
      geometryPaths toScreen g = Inr (map (spec_ringPath toScreen) (concat (MultiPolygon g))) \<and>
      length (map (spec_ringPath toScreen) (concat (MultiPolygon g))) =
        sum_list (map length (MultiPolygon g)))"
proof (intro conjI impI)
  show "ringOk ring \<Longrightarrow> ringPath toScreen ring = Inr (spec_ringPath toScreen ring)"
    by (rule ringPath_ok)
  show "spec_ringPath toScreen (v # vs) =
     concat (map commandText
       ((case project toScreen v of (x, y) \<Rightarrow> MoveTo x y) #
        map (\<lambda>u. case project toScreen u of (x, y) \<Rightarrow> LineTo x y) vs @ [ClosePath]))"
    by (simp add: spec_ringPath_def ringCommands_def)
  show "length (filter isVertexCommand (ringCommands toScreen ring)) = length ring"
    by (rule ringCommands_vertices)
next
  assume "Type g = ''Polygon'' \<and> positionsOk g"
  then show "geometryPaths toScreen g = Inr (map (spec_ringPath toScreen) (Polygon g))"
    by (simp add: geometryPaths_ok spec_paths_def)
  show "length (map (spec_ringPath toScreen) (Polygon g)) = length (Polygon g)" by simp
next
  assume "Type g = ''MultiPolygon'' \<and> positionsOk g"
  then show "geometryPaths toScreen g = Inr (map (spec_ringPath toScreen) (concat (MultiPolygon g)))"
    by (simp add: geometryPaths_ok spec_paths_def)
  show "length (map (spec_ringPath toScreen) (concat (MultiPolygon g))) =
        sum_list (map length (MultiPolygon g))"
    by (simp add: length_concat)
qed

lemmas fmt_eval = fmt_1f_def round_half_even_def nat_digits.simps digit_char_def Let_def

lemma example_toScreen:
  "project (funcToScreen 1280 720 example_bounds) [lon, lat] = (lon * (128 / 5) + 640, 360 - lat * (128 / 5))"
  by (simp add: project_def funcToScreen_example)

lemma fmt_values:
  "fmt_1f 128 = ''128.0''" "fmt_1f 616 = ''616.0''" "fmt_1f 1152 = ''1152.0''" "fmt_1f 104 = ''104.0''"
  by (simp_all add: fmt_eval)

lemma example_square_path:
  "spec_ringPath (funcToScreen 1280 720 example_bounds)
     [[- 20, - 10], [20, - 10], [20, 10], [- 20, 10], [- 20, - 10]] =
   ''M128.0 616.0 L1152.0 616.0 L1152.0 104.0 L128.0 104.0 L128.0 616.0 Z''"
  by (simp add: spec_ringPath_def ringCommands_def example_toScreen fmt_values)

theorem geometryPaths_one_path_per_ring_witness:
  "ringOk [[- 20, - 10], [20, - 10], [20, 10], [- 20, 10], [- 20, - 10]] \<and>
   ringPath (funcToScreen 1280 720 example_bounds)
     [[- 20, - 10], [20, - 10], [20, 10], [- 20, 10], [- 20, - 10]] =
     Inr ''M128.0 616.0 L1152.0 616.0 L1152.0 104.0 L128.0 104.0 L128.0 616.0 Z'' \<and>
   Type example_square = ''Polygon'' \<and> positionsOk example_square \<and>
   geometryPaths (funcToScreen 1280 720 example_bounds) example_square =
     Inr [''M128.0 616.0 L1152.0 616.0 L1152.0 104.0 L128.0 104.0 L128.0 616.0 Z''] \<and>
   Type example_islands = ''MultiPolygon'' \<and> positionsOk example_islands \<and>
   (\<exists>p q. geometryPaths (funcToScreen 1280 720 example_bounds) example_islands = Inr [p, q])"
proof -
  have r: "ringOk [[- 20, - 10], [20, - 10], [20, 10], [- 20, 10], [- 20, - 10]]"
    by (simp add: ringOk_def)
  have s: "Type example_square = ''Polygon''" "positionsOk example_square"
    by (simp_all add: example_square_def positionsOk_def vertices_def)
  have i: "Type example_islands = ''MultiPolygon''" "positionsOk example_islands"
    by (simp_all add: example_islands_def positionsOk_def vertices_def)
  have sq: "Polygon example_square = [[[- 20, - 10], [20, - 10], [20, 10], [- 20, 10], [- 20, - 10]]]"
    by (simp add: example_square_def)
  have isl: "length (concat (MultiPolygon example_islands)) = 2"
    by (simp add: example_islands_def)
  from geometryPaths_one_path_per_ring [of "[[- 20, - 10], [20, - 10], [20, 10], [- 20, 10], [- 20, - 10]]"
      "funcToScreen 1280 720 example_bounds" _ _ example_square] r s
  have a: "ringPath (funcToScreen 1280 720 example_bounds)
     [[- 20, - 10], [20, - 10], [20, 10], [- 20, 10], [- 20, - 10]] =
     Inr ''M128.0 616.0 L1152.0 616.0 L1152.0 104.0 L128.0 104.0 L128.0 616.0 Z''"
    and b: "geometryPaths (funcToScreen 1280 720 example_bounds) example_square =
     Inr [''M128.0 616.0 L1152.0 616.0 L1152.0 104.0 L128.0 104.0 L128.0 616.0 Z'']"
    by (simp_all only: example_square_path sq list.map)
  from geometryPaths_one_path_per_ring [of _ "funcToScreen 1280 720 example_bounds" _ _ example_islands] i
  have c: "\<exists>p q. geometryPaths (funcToScreen 1280 720 example_bounds) example_islands = Inr [p, q]"
    by (simp add: example_islands_def)
  from r s i a b c show ?thesis by simp
qed

section \<open>Properties of the scene\<close>

lemma joinPaths_from: "foldl (\<lambda>finalPath p. finalPath @ p @ sep) acc paths = acc @ concat (map (\<lambda>p. p @ sep) paths)"
  by (induction paths arbitrary: acc) simp_all

lemma joinPaths_concat: "joinPaths paths = concat (map (\<lambda>p. p @ '' '') paths)"
  unfolding joinPaths_def by (simp only: joinPaths_from append_Nil)

lemma drawFeature_ok:
  assumes "drawable f"
  shows "drawFeature toScreen scaleMap multiplier canvas f =
           Inr (canvas @ [spec_regionPath toScreen scaleMap multiplier f])"
proof -
  from assms obtain x g where x: "Properties f ''id'' = Some (JNumber x)"
    and g: "Geometry f = Some g" and ok: "positionsOk g"
    by (auto simp: drawable_def hasNumericId_def split: option.splits json_value.splits)
  have lvl: "level scaleMap f = (case scaleMap (go_int x) of Some val \<Rightarrow> val | None \<Rightarrow> 0)"
    by (simp add: level_def featureId_def x scaleAt_def split: option.splits)
  show ?thesis
    by (simp add: drawFeature_def x g geometryPaths_ok [OF ok] spec_regionPath_def lvl
          joinPaths_concat pathStyle_def spec_style_def Let_def)
qed

lemma composeScene_ok:
  assumes "list_all drawable fc"
  shows "composeScene toScreen scaleMap multiplier w h fc =
           Inr (SvgStart (go_int w) (go_int h) #
                SvgRect 0 0 (go_int w) (go_int h) ''fill:#18181b'' #
                map (spec_regionPath toScreen scaleMap multiplier) fc @ [SvgEnd])"
proof -
  have "range_loop (drawFeature toScreen scaleMap multiplier) fc
          [SvgStart (go_int w) (go_int h), SvgRect 0 0 (go_int w) (go_int h) ''fill:#18181b'']
        = Inr ([SvgStart (go_int w) (go_int h), SvgRect 0 0 (go_int w) (go_int h) ''fill:#18181b'']
               @ map (spec_regionPath toScreen scaleMap multiplier) fc)"
    using assms by (intro range_loop_collect drawFeature_ok) (simp add: list_all_iff)
  then show ?thesis by (simp add: composeScene_def Let_def)
qed

lemma level_absent: "featureId f = Inr i \<Longrightarrow> scaleMap i = None \<Longrightarrow> level scaleMap f = 0"
  by (simp add: level_def scaleAt_def)

text \<open>
  Claim C6. On features with a numeric id and a geometry whose positions have two
  components, \<^verbatim>\<open>composeScene\<close> writes the opening of the document, then the background
  rectangle over the whole canvas, then one path element per feature in the order of the
  data set, then the end of the document. The style of a feature's element is the fill
  colour of its level, the stroke colour \<^verbatim>\<open>#a1a1aa\<close>, a stroke width of 0.4 times the
  multiplier and the fill opacity 0.8. A feature whose id has no entry in the assignment
  has level 0, and level 0 fills with \<^verbatim>\<open>#27272a\<close>.
\<close>

theorem composeScene_draws_every_region:
  "(list_all drawable fc \<longrightarrow>
      composeScene toScreen scaleMap multiplier w h fc =
        Inr (SvgStart (go_int w) (go_int h) #
             SvgRect 0 0 (go_int w) (go_int h) ''fill:#18181b'' #
             map (spec_regionPath toScreen scaleMap multiplier) fc @ [SvgEnd])) \<and>
   (featureId f = Inr i \<and> scaleMap i = None \<longrightarrow> level scaleMap f = 0) \<and>
   (level scaleMap f = 0 \<longrightarrow>
      spec_style (level scaleMap f) multiplier =
        ''fill:#27272a;stroke:#a1a1aa;stroke-width:'' @ fmt_1f (4 / 10 * multiplier) @
        '';fill-opacity:0.8'')"
  by (auto simp: composeScene_ok level_absent spec_style_def intensityToColor_def)

lemma go_int_canvas: "go_int 1280 = 1280" "go_int 720 = 720"
  by (simp_all add: go_int_def)

lemma example_region_square:
  "spec_regionPath (funcToScreen 1280 720 example_bounds) [1 \<mapsto> 5] 1 (example_feature 1 example_square) =
     SvgPath ''M128.0 616.0 L1152.0 616.0 L1152.0 104.0 L128.0 104.0 L128.0 616.0 Z ''
             ''fill:#dc2626;stroke:#a1a1aa;stroke-width:0.4;fill-opacity:0.8''"
proof -
  have p: "spec_paths (funcToScreen 1280 720 example_bounds) example_square =
     [''M128.0 616.0 L1152.0 616.0 L1152.0 104.0 L128.0 104.0 L128.0 616.0 Z'']"
    by (simp add: spec_paths_def example_square_def example_square_path)
  have l: "level [1 \<mapsto> 5] (example_feature 1 example_square) = 5"
    by (simp add: level_def featureId_def scaleAt_def go_int_def example_feature_def)
  have s: "spec_style 5 1 = ''fill:#dc2626;stroke:#a1a1aa;stroke-width:0.4;fill-opacity:0.8''"
    by (simp add: spec_style_def intensityToColor_def fmt_eval)
  show ?thesis
    by (simp add: spec_regionPath_def example_feature_def p l [unfolded example_feature_def] s)
qed

lemma example_region_point:
  "spec_regionPath (funcToScreen 1280 720 example_bounds) [1 \<mapsto> 5] 1 (example_feature 2 example_point) =
     SvgPath [] ''fill:#27272a;stroke:#a1a1aa;stroke-width:0.4;fill-opacity:0.8''"
proof -
  have p: "spec_paths (funcToScreen 1280 720 example_bounds) example_point = []"
    by (simp add: spec_paths_def example_point_def)
  have l: "level [1 \<mapsto> 5] (example_feature 2 example_point) = 0"
    by (simp add: level_def featureId_def scaleAt_def go_int_def example_feature_def)
  have s: "spec_style 0 1 = ''fill:#27272a;stroke:#a1a1aa;stroke-width:0.4;fill-opacity:0.8''"
    by (simp add: spec_style_def intensityToColor_def fmt_eval)
  show ?thesis
    by (simp add: spec_regionPath_def example_feature_def p l [unfolded example_feature_def] s)
qed

lemma example_drawable:
  "list_all drawable [example_feature 1 example_square, example_feature 2 example_point]"
  by (simp add: drawable_def hasNumericId_def positionsOk_def vertices_def example_defs)

theorem composeScene_draws_every_region_witness:
  "list_all drawable [example_feature 1 example_square, example_feature 2 example_point] \<and>
   composeScene (funcToScreen 1280 720 example_bounds) [1 \<mapsto> 5] 1 1280 720
     [example_feature 1 example_square, example_feature 2 example_point] =
     Inr [SvgStart 1280 720,
          SvgRect 0 0 1280 720 ''fill:#18181b'',
          SvgPath ''M128.0 616.0 L1152.0 616.0 L1152.0 104.0 L128.0 104.0 L128.0 616.0 Z ''
                  ''fill:#dc2626;stroke:#a1a1aa;stroke-width:0.4;fill-opacity:0.8'',
          SvgPath [] ''fill:#27272a;stroke:#a1a1aa;stroke-width:0.4;fill-opacity:0.8'',
          SvgEnd] \<and>
   featureId (example_feature 2 example_point) = Inr 2 \<and> [1 \<mapsto> (5::int)] (2::int) = None \<and>
   level [1 \<mapsto> 5] (example_feature 2 example_point) = 0"
proof -
  have i: "featureId (example_feature 2 example_point) = Inr 2" "[1 \<mapsto> (5::int)] (2::int) = None"
    by (simp_all add: featureId_def go_int_def example_feature_def)
  from composeScene_draws_every_region [of "[example_feature 1 example_square, example_feature 2 example_point]"
      "funcToScreen 1280 720 example_bounds" "[1 \<mapsto> 5]" 1 1280 720 "example_feature 2 example_point" 2]
    example_drawable i
  show ?thesis
    by (simp add: go_int_canvas example_region_square example_region_point)
qed

section \<open>Properties of the labels\<close>

lemma sum_loop:
  assumes "ringOk ring"
  shows "range_loop sumStep ring (a, b) =
           Inr (a + sum_list (map (\<lambda>c. c ! 0) ring), b + sum_list (map (\<lambda>c. c ! 1) ring))"
  using assms
proof (induction ring arbitrary: a b)
  case Nil
  then show ?case by simp
next
  case (Cons c ring)
  then have c: "2 \<le> length c" and r: "ringOk ring" by (simp_all add: ringOk_def)
  have "sumStep (a, b) c = Inr (a + c ! 0, b + c ! 1)" using c by (simp add: sumStep_def)
  then show ?case by (simp add: Cons.IH [OF r] add.assoc)
qed

lemma calculateCenter_ok: "ringOk ring \<Longrightarrow> calculateCenter ring = Inr (spec_mean ring)"
  by (simp add: calculateCenter_def sum_loop spec_mean_def Let_def)

lemma featureCenter_ok: "firstRingOk g \<Longrightarrow> featureCenter g = Inr (spec_centroid g)"
  by (auto simp: firstRingOk_def featureCenter_def spec_centroid_def calculateCenter_ok
        split: list.splits if_splits)

lemma concat_map_filter:
  "concat (map (\<lambda>x. if P x then [f x] else []) xs) = map f (filter P xs)"
  by (induction xs) simp_all

lemma drawLabel_ok:
  assumes "nonNegative scaleMap" and "labelable scaleMap f"
  shows "drawLabel toScreen scaleMap drawn f =
           Inr (drawn @ (if 0 < level scaleMap f then [spec_label toScreen scaleMap f] else []))"
proof -
  from assms(2) obtain i where i: "featureId f = Inr i"
    using featureId_numeric by (auto simp: labelable_def)
  then have lvl: "level scaleMap f = scaleAt scaleMap i" by (simp add: level_def)
  show ?thesis
  proof (cases "scaleMap i")
    case None
    then show ?thesis by (simp add: drawLabel_def i lvl scaleAt_def)
  next
    case (Some v)
    then have v: "0 \<le> v" and lv: "level scaleMap f = v"
      using assms(1) by (auto simp: nonNegative_def lvl scaleAt_def)
    show ?thesis
    proof (cases "v = 0")
      case True
      then show ?thesis by (simp add: drawLabel_def i Some lv)
    next
      case False
      with assms(2) lv obtain g where g: "Geometry f = Some g" and ok: "firstRingOk g"
        by (auto simp: labelable_def split: option.splits)
      from False v have pos: "0 < v" by simp
      show ?thesis
        by (simp add: drawLabel_def i Some False g featureCenter_ok [OF ok] lv pos spec_label_def
              split: prod.splits)
    qed
  qed
qed

lemma label_loop_ok:
  assumes "nonNegative scaleMap" and "list_all (labelable scaleMap) fc"
  shows "range_loop (drawLabel toScreen scaleMap) fc drawn =
           Inr (drawn @ map (spec_label toScreen scaleMap) (filter (\<lambda>f. 0 < level scaleMap f) fc))"
proof -
  have "range_loop (drawLabel toScreen scaleMap) fc drawn =
          Inr (drawn @ concat (map (\<lambda>f. if 0 < level scaleMap f
                                          then [spec_label toScreen scaleMap f] else []) fc))"
    using assms by (intro range_loop_collect_lists drawLabel_ok) (simp_all add: list_all_iff)
  then show ?thesis by (simp only: concat_map_filter)
qed

text \<open>
  Claim C7. With labels requested, on an assignment without negative levels and on
  features whose first ring can be averaged, the strings drawn before the footer are
  the labels of exactly the features of level above 0, in order; without the request
  only the footer is drawn. A label is the decimal level, drawn 5 pixels to the left of
  and 5 pixels below the truncated projection of the centroid; the centroid of a polygon
  is the mean of the vertices of its first ring, that of a multi-polygon the mean of the
  vertices of the first ring of its first polygon.
\<close>

theorem svgToPNG_labels_active_regions:
  "(nonNegative scaleMap \<and> list_all (labelable scaleMap) fc \<longrightarrow>
      svgToPNG svgData w h footerText True multiplier fc scaleMap toScreen =
        Inr \<lparr>scene = svgData, width = w, height = h,
             texts = map (spec_label toScreen scaleMap) (filter (\<lambda>f. 0 < level scaleMap f) fc) @
                     [spec_footer footerText multiplier h]\<rparr>) \<and>
   svgToPNG svgData w h footerText False multiplier fc scaleMap toScreen =
     Inr \<lparr>scene = svgData, width = w, height = h, texts = [spec_footer footerText multiplier h]\<rparr> \<and>
   (Geometry f = Some g \<and> toScreen (fst (spec_centroid g)) (snd (spec_centroid g)) = (x, y) \<longrightarrow>
      spec_label toScreen scaleMap f = DrawString (fmt_d (level scaleMap f)) (go_int x - 5) (go_int y + 5)) \<and>
   (Type g = ''Polygon'' \<and> Polygon g = ring # rest \<longrightarrow> spec_centroid g = spec_mean ring) \<and>
   (Type g = ''MultiPolygon'' \<and> MultiPolygon g = (ring # rest) # others \<longrightarrow>
      spec_centroid g = spec_mean ring)"
proof (intro conjI impI)
  assume "nonNegative scaleMap \<and> list_all (labelable scaleMap) fc"
  then show "svgToPNG svgData w h footerText True multiplier fc scaleMap toScreen =
        Inr \<lparr>scene = svgData, width = w, height = h,
             texts = map (spec_label toScreen scaleMap) (filter (\<lambda>f. 0 < level scaleMap f) fc) @
                     [spec_footer footerText multiplier h]\<rparr>"
    by (simp add: svgToPNG_def label_loop_ok spec_footer_def Let_def)
next
  show "svgToPNG svgData w h footerText False multiplier fc scaleMap toScreen =
     Inr \<lparr>scene = svgData, width = w, height = h, texts = [spec_footer footerText multiplier h]\<rparr>"
    by (simp add: svgToPNG_def spec_footer_def Let_def)
next
  assume "Geometry f = Some g \<and> toScreen (fst (spec_centroid g)) (snd (spec_centroid g)) = (x, y)"
  then show "spec_label toScreen scaleMap f =
      DrawString (fmt_d (level scaleMap f)) (go_int x - 5) (go_int y + 5)"
    by (simp add: spec_label_def)
next
  assume "Type g = ''Polygon'' \<and> Polygon g = ring # rest"
  then show "spec_centroid g = spec_mean ring" by (simp add: spec_centroid_def)
next
  assume "Type g = ''MultiPolygon'' \<and> MultiPolygon g = (ring # rest) # others"
  then show "spec_centroid g = spec_mean ring" by (simp add: spec_centroid_def)
qed

lemma example_levels:
  "level [1 \<mapsto> 5, 2 \<mapsto> 3] (example_feature 1 g) = 5"
  "level [1 \<mapsto> 5, 2 \<mapsto> 3] (example_feature 2 g) = 3"
  "level [1 \<mapsto> 5, 2 \<mapsto> 3] (example_feature 3 g) = 0"
  by (simp_all add: level_def featureId_def scaleAt_def go_int_def example_feature_def)

lemma example_geometry: "Geometry (example_feature i g) = Some g"
  by (simp add: example_feature_def)

lemma example_nonNegative: "nonNegative [1 \<mapsto> 5, 2 \<mapsto> 3]"
  by (simp add: nonNegative_def)

lemma example_labelable:
  "list_all (labelable [1 \<mapsto> 5, 2 \<mapsto> 3])
     [example_feature 1 example_square, example_feature 2 example_islands,
      example_feature 3 example_point]"
  by (simp add: labelable_def example_levels)
     (simp add: hasNumericId_def firstRingOk_def ringOk_def example_defs)

lemma example_centroids:
  "spec_centroid example_square = (- 4, - 2)" "spec_centroid example_islands = (35, 45 / 2)"
  by (simp_all add: spec_centroid_def spec_mean_def example_defs)

lemma example_labels:
  "spec_label (funcToScreen 1280 720 example_bounds) [1 \<mapsto> 5, 2 \<mapsto> 3]
     (example_feature 1 example_square) = DrawString ''5'' 532 416"
  "spec_label (funcToScreen 1280 720 example_bounds) [1 \<mapsto> 5, 2 \<mapsto> 3]
     (example_feature 2 example_islands) = DrawString ''3'' 1531 (- 211)"
  by (simp_all add: spec_label_def example_levels example_geometry example_centroids
        funcToScreen_example go_int_def fmt_d_def nat_digits.simps digit_char_def)

theorem svgToPNG_labels_active_regions_witness:
  "nonNegative [1 \<mapsto> 5, 2 \<mapsto> 3] \<and>
   list_all (labelable [1 \<mapsto> 5, 2 \<mapsto> 3])
     [example_feature 1 example_square, example_feature 2 example_islands,
      example_feature 3 example_point] \<and>
   svgToPNG [] 1280 720 [] True 1
     [example_feature 1 example_square, example_feature 2 example_islands,
      example_feature 3 example_point]
     [1 \<mapsto> 5, 2 \<mapsto> 3] (funcToScreen 1280 720 example_bounds) =
     Inr \<lparr>scene = [], width = 1280, height = 720,
          texts = [DrawString ''5'' 532 416, DrawString ''3'' 1531 (- 211),
                   DrawString ''Code available under the MIT License (GitHub: evacuate).'' 10 706]\<rparr> \<and>
   Type example_islands = ''MultiPolygon'' \<and>
   spec_centroid example_islands = spec_mean [[30, 20], [40, 20], [40, 30], [30, 20]]"
proof -
  have t: "Type example_islands = ''MultiPolygon'' \<and>
      MultiPolygon example_islands =
        ([[30, 20], [40, 20], [40, 30], [30, 20]] # []) # [[[[50, 40], [60, 40], [60, 50], [50, 40]]]]"
    by (simp add: example_islands_def)
  from svgToPNG_labels_active_regions [of "[1 \<mapsto> 5, 2 \<mapsto> 3]"
      "[example_feature 1 example_square, example_feature 2 example_islands,
        example_feature 3 example_point]"
      "[]" 1280 720 "[]" 1 "funcToScreen 1280 720 example_bounds" _ example_islands _ _
      "[[30, 20], [40, 20], [40, 30], [30, 20]]" "[]" "[[[[50, 40], [60, 40], [60, 50], [50, 40]]]]"]
    example_nonNegative example_labelable t
  show ?thesis
    by (simp add: example_levels example_labels spec_footer_def go_int_def)
qed

section \<open>Properties of the request handler\<close>

lemma range_loop_fails:
  assumes "x \<in> set xs" and "\<And>s. \<exists>e. body s x = Inl e"
  shows "\<exists>e. range_loop body xs s = Inl e"
  using assms(1)
proof (induction xs arbitrary: s)
  case Nil
  then show ?case by simp
next
  case (Cons y ys)
  show ?case
  proof (cases "body s y")
    case (Inl e)
    then show ?thesis by simp
  next
    case (Inr s')
    with Cons.prems assms(2) [of s] have "x \<in> set ys" by auto
    from Cons.IH [OF this] Inr show ?thesis by simp
  qed
qed

lemma boundsFeature_bad_id: "\<not> hasNumericId f \<Longrightarrow> boundsFeature scaleMap b f = Inl PanicTypeAssertion"
  by (auto simp: hasNumericId_def boundsFeature_def featureId_def split: option.splits json_value.splits)

lemma calculateBounds_bad_id:
  assumes "f \<in> set fc" and "\<not> hasNumericId f"
  shows "\<exists>e. calculateBounds fc scaleMap = Inl e"
  unfolding calculateBounds_def
  by (rule range_loop_fails [OF assms(1)]) (simp add: boundsFeature_bad_id [OF assms(2)])

lemma mapHandler_bad_id:
  assumes "f \<in> set fc" and "\<not> hasNumericId f"
  shows "\<exists>e. mapHandler intensities size_param footer scale_text fc = Inl e"
proof (cases "buildScaleMap intensities")
  case (Inl e)
  then show ?thesis by (simp add: mapHandler_def)
next
  case (Inr scaleMap)
  from calculateBounds_bad_id [OF assms] obtain e where "calculateBounds fc scaleMap = Inl e"
    by blast
  with Inr show ?thesis by (simp add: mapHandler_def Let_def)
qed

lemma drawable_boundsInputOk: "drawable f \<Longrightarrow> boundsInputOk scaleMap f"
  by (auto simp: drawable_def boundsInputOk_def split: option.splits)

lemma nonNegative_update: "nonNegative m \<Longrightarrow> 0 \<le> v \<Longrightarrow> nonNegative (m(k \<mapsto> v))"
  unfolding nonNegative_def by (simp split: if_splits)

lemma assignAll_nonNegative:
  "nonNegative m \<Longrightarrow> list_all validScale qs \<Longrightarrow> nonNegative (assignAll qs m)"
proof (induction qs arbitrary: m)
  case Nil
  then show ?case by simp
next
  case (Cons q qs)
  from Cons.prems have q: "0 \<le> Scale q" by (simp add: validScale_def)
  from Cons.prems have qs: "list_all validScale qs" by simp
  have "nonNegative (assignAll qs (m(ID q \<mapsto> Scale q)))"
    by (rule Cons.IH [OF nonNegative_update [OF Cons.prems(1) q] qs])
  then show ?case by (simp only: assignAll.simps)
qed

lemma buildScaleMap_nonNegative:
  assumes "list_all validScale intensities"
  shows "nonNegative (assignAll intensities Map.empty)"
  by (rule assignAll_nonNegative [OF _ assms]) (simp add: nonNegative_def)

lemma svgToPNG_ok:
  assumes "nonNegative scaleMap" and "showScale \<longrightarrow> list_all (labelable scaleMap) fc"
  shows "svgToPNG svgData w h footerText showScale multiplier fc scaleMap toScreen =
     Inr \<lparr>scene = svgData, width = w, height = h,
          texts = (if showScale
                   then map (spec_label toScreen scaleMap) (filter (\<lambda>f. 0 < level scaleMap f) fc)
                   else []) @
                  [spec_footer footerText multiplier h]\<rparr>"
proof (cases showScale)
  case True
  with assms have "list_all (labelable scaleMap) fc" by simp
  from label_loop_ok [OF assms(1) this] True show ?thesis
    by (simp add: svgToPNG_def spec_footer_def Let_def)
next
  case False
  then show ?thesis by (simp add: svgToPNG_def spec_footer_def Let_def)
qed

lemma mapHandler_steps:
  assumes "buildScaleMap intensities = Inr scaleMap"
    and "calculateBounds fc scaleMap = Inr b"
    and "composeScene (funcToScreen (1280 * sizeMultiplier size_param) (720 * sizeMultiplier size_param) b)
           scaleMap (sizeMultiplier size_param) (1280 * sizeMultiplier size_param)
           (720 * sizeMultiplier size_param) fc = Inr svgData"
  shows "mapHandler intensities size_param footer scale_text fc =
     svgToPNG svgData (go_int (1280 * sizeMultiplier size_param))
       (go_int (720 * sizeMultiplier size_param)) footer (scale_text = ''true'')
       (sizeMultiplier size_param) fc scaleMap
       (funcToScreen (1280 * sizeMultiplier size_param) (720 * sizeMultiplier size_param) b)"
  unfolding mapHandler_def Let_def assms sum.case ..

lemma mapHandler_ok:
  assumes valid: "list_all validScale intensities"
    and draw: "list_all drawable fc"
    and lab: "scale_text = ''true'' \<longrightarrow> list_all (labelable (assignAll intensities Map.empty)) fc"
  shows "\<exists>b. calculateBounds fc (assignAll intensities Map.empty) = Inr b \<and>
     mapHandler intensities size_param footer scale_text fc =
       Inr (spec_image (assignAll intensities Map.empty) (sizeMultiplier size_param) footer
              (scale_text = ''true'') fc b)"
proof -
  let ?m = "assignAll intensities Map.empty"
  have m: "buildScaleMap intensities = Inr ?m"
    using valid by (simp add: buildScaleMap_def store_loop_valid)
  have "list_all (boundsInputOk ?m) fc"
    using draw by (simp add: list_all_iff drawable_boundsInputOk)
  then obtain b where b: "calculateBounds fc ?m = Inr b"
    using calculateBounds_total by blast
  have nn: "nonNegative ?m" using valid by (rule buildScaleMap_nonNegative)
  have "mapHandler intensities size_param footer scale_text fc =
       Inr (spec_image ?m (sizeMultiplier size_param) footer (scale_text = ''true'') fc b)"
    unfolding mapHandler_steps [OF m b composeScene_ok [OF draw]] svgToPNG_ok [OF nn lab]
      spec_image_def Let_def ..
  with b show ?thesis by blast
qed

lemma unsupported_skipped:
  assumes "hasNumericId f" and "Geometry f = Some g" and "unsupported g"
  shows "boundsFeature scaleMap b f = Inr b"
    and "drawFeature toScreen scaleMap multiplier canvas f =
           Inr (canvas @ [SvgPath [] (spec_style (level scaleMap f) multiplier)])"
proof -
  from assms(1) obtain i where i: "featureId f = Inr i" using featureId_numeric by blast
  show "boundsFeature scaleMap b f = Inr b"
    using assms(2,3) by (simp add: boundsFeature_def i unsupported_def)
  have d: "drawable f"
    using assms by (simp add: drawable_def positionsOk_def vertices_def unsupported_def)
  show "drawFeature toScreen scaleMap multiplier canvas f =
           Inr (canvas @ [SvgPath [] (spec_style (level scaleMap f) multiplier)])"
    using assms(2,3) by (simp add: drawFeature_ok [OF d] spec_regionPath_def spec_paths_def unsupported_def)
qed

text \<open>
  Claim C9, amended. A feature whose id property is missing or is not a number makes
  the request fail. A feature with a numeric id whose geometry type is neither
  \<^verbatim>\<open>Polygon\<close> nor \<^verbatim>\<open>MultiPolygon\<close> does not: the bounds stay as they are and an empty
  path with the style of the feature's level is written. A request over features with
  numeric ids and well-formed geometries, of any type, yields the image of all its
  features, in which the element of such a feature is that empty path.
\<close>

theorem bad_id_fails_unsupported_geometry_is_drawn_empty:
  "((\<exists>f\<in>set fc'. \<not> hasNumericId f) \<longrightarrow>
      (\<exists>e. mapHandler intensities' size_param' footer' scale_text' fc' = Inl e)) \<and>
   (hasNumericId f \<and> Geometry f = Some g \<and> unsupported g \<longrightarrow>
      boundsFeature scaleMap b f = Inr b \<and>
      drawFeature toScreen scaleMap multiplier canvas f =
        Inr (canvas @ [SvgPath [] (spec_style (level scaleMap f) multiplier)])) \<and>
   (Geometry f = Some g \<and> unsupported g \<longrightarrow>
      spec_regionPath toScreen scaleMap multiplier f =
        SvgPath [] (spec_style (level scaleMap f) multiplier)) \<and>
   (list_all validScale intensities \<and> list_all drawable fc \<and>
    (scale_text = ''true'' \<longrightarrow> list_all (labelable (assignAll intensities Map.empty)) fc) \<longrightarrow>
      (\<exists>bnd. calculateBounds fc (assignAll intensities Map.empty) = Inr bnd \<and>
         mapHandler intensities size_param footer scale_text fc =
           Inr (spec_image (assignAll intensities Map.empty) (sizeMultiplier size_param) footer
                  (scale_text = ''true'') fc bnd)))"
proof (intro conjI impI)
  assume "\<exists>f\<in>set fc'. \<not> hasNumericId f"
  then show "\<exists>e. mapHandler intensities' size_param' footer' scale_text' fc' = Inl e"
    using mapHandler_bad_id by blast
next
  assume a: "hasNumericId f \<and> Geometry f = Some g \<and> unsupported g"
  then show "boundsFeature scaleMap b f = Inr b"
    using unsupported_skipped(1) by blast
  from a show "drawFeature toScreen scaleMap multiplier canvas f =
        Inr (canvas @ [SvgPath [] (spec_style (level scaleMap f) multiplier)])"
    using unsupported_skipped(2) by blast
next
  assume "Geometry f = Some g \<and> unsupported g"
  then show "spec_regionPath toScreen scaleMap multiplier f =
      SvgPath [] (spec_style (level scaleMap f) multiplier)"
    by (simp add: spec_regionPath_def spec_paths_def unsupported_def)
next
  assume "list_all validScale intensities \<and> list_all drawable fc \<and>
    (scale_text = ''true'' \<longrightarrow> list_all (labelable (assignAll intensities Map.empty)) fc)"
  then show "\<exists>bnd. calculateBounds fc (assignAll intensities Map.empty) = Inr bnd \<and>
         mapHandler intensities size_param footer scale_text fc =
           Inr (spec_image (assignAll intensities Map.empty) (sizeMultiplier size_param) footer
                  (scale_text = ''true'') fc bnd)"
    using mapHandler_ok [of intensities fc scale_text size_param footer] by blast
qed

lemma example_assignment:
  "assignAll [\<lparr>ID = 1, Scale = 5\<rparr>, \<lparr>ID = 2, Scale = 3\<rparr>] Map.empty = [1 \<mapsto> 5, 2 \<mapsto> 3]"
  by simp

lemma example_valid: "list_all validScale [\<lparr>ID = 1, Scale = 5\<rparr>, \<lparr>ID = 2, Scale = 3\<rparr>]"
  by (simp add: validScale_def)

lemma example_bounds_point:
  "calculateBounds [example_feature 1 example_square, example_feature 2 example_point]
     [1 \<mapsto> 5, 2 \<mapsto> 3] = Inr example_bounds"
  by (simp add: bounds_eval example_defs example_bounds_def)

lemma example_labelable_point:
  "list_all (labelable [1 \<mapsto> 5, 2 \<mapsto> 3])
     [example_feature 1 example_square, example_feature 2 example_point]"
  by (simp add: labelable_def example_levels)
     (simp add: hasNumericId_def firstRingOk_def ringOk_def example_defs)

lemma example_image:
  "spec_image [1 \<mapsto> 5, 2 \<mapsto> 3] 1 [] True
     [example_feature 1 example_square, example_feature 2 example_point] example_bounds =
   \<lparr>scene = [SvgStart 1280 720,
             SvgRect 0 0 1280 720 ''fill:#18181b'',
             SvgPath ''M128.0 616.0 L1152.0 616.0 L1152.0 104.0 L128.0 104.0 L128.0 616.0 Z ''
                     ''fill:#dc2626;stroke:#a1a1aa;stroke-width:0.4;fill-opacity:0.8'',
             SvgPath [] ''fill:#facc15;stroke:#a1a1aa;stroke-width:0.4;fill-opacity:0.8'',
             SvgEnd],
    width = 1280, height = 720,
    texts = [DrawString ''5'' 532 416, DrawString ''3'' 635 365,
             DrawString ''Code available under the MIT License (GitHub: evacuate).'' 10 706]\<rparr>"
proof -
  have p1: "spec_paths (funcToScreen 1280 720 example_bounds) example_square =
     [''M128.0 616.0 L1152.0 616.0 L1152.0 104.0 L128.0 104.0 L128.0 616.0 Z'']"
    by (simp add: spec_paths_def example_square_def example_square_path)
  have p2: "spec_paths (funcToScreen 1280 720 example_bounds) example_point = []"
    by (simp add: spec_paths_def example_point_def)
  have s: "spec_style 5 1 = ''fill:#dc2626;stroke:#a1a1aa;stroke-width:0.4;fill-opacity:0.8''"
    "spec_style 3 1 = ''fill:#facc15;stroke:#a1a1aa;stroke-width:0.4;fill-opacity:0.8''"
    by (simp_all add: spec_style_def intensityToColor_def fmt_eval)
  have r: "spec_regionPath (funcToScreen 1280 720 example_bounds) [1 \<mapsto> 5, 2 \<mapsto> 3] 1
             (example_feature 1 example_square) =
           SvgPath ''M128.0 616.0 L1152.0 616.0 L1152.0 104.0 L128.0 104.0 L128.0 616.0 Z ''
                   ''fill:#dc2626;stroke:#a1a1aa;stroke-width:0.4;fill-opacity:0.8''"
    "spec_regionPath (funcToScreen 1280 720 example_bounds) [1 \<mapsto> 5, 2 \<mapsto> 3] 1
             (example_feature 2 example_point) =
           SvgPath [] ''fill:#facc15;stroke:#a1a1aa;stroke-width:0.4;fill-opacity:0.8''"
    by (simp_all add: spec_regionPath_def example_geometry example_levels p1 p2 s)
  have c: "spec_centroid example_point = (0, 0)"
    by (simp add: spec_centroid_def example_point_def)
  have l: "spec_label (funcToScreen 1280 720 example_bounds) [1 \<mapsto> 5, 2 \<mapsto> 3]
             (example_feature 2 example_point) = DrawString ''3'' 635 365"
    by (simp add: spec_label_def example_levels example_geometry c funcToScreen_example go_int_def
          fmt_d_def nat_digits.simps digit_char_def)
  show ?thesis
    by (simp add: spec_image_def Let_def go_int_canvas r example_levels example_labels l
          spec_footer_def go_int_def)
qed

text \<open>
  Claim C9, as stated, fails for the geometry type: a request whose second feature is a
  \<^verbatim>\<open>Point\<close> is rendered. The feature gets an empty path with the style of its level, and
  its label is drawn at the projection of (0, 0).
\<close>

theorem unsupported_geometry_counterexample:
  "hasNumericId (example_feature 2 example_point) \<and>
   Geometry (example_feature 2 example_point) = Some example_point \<and>
   Type example_point = ''Point'' \<and>
   mapHandler [\<lparr>ID = 1, Scale = 5\<rparr>, \<lparr>ID = 2, Scale = 3\<rparr>] ''1'' [] ''true''
     [example_feature 1 example_square, example_feature 2 example_point] =
   Inr \<lparr>scene = [SvgStart 1280 720,
                 SvgRect 0 0 1280 720 ''fill:#18181b'',
                 SvgPath ''M128.0 616.0 L1152.0 616.0 L1152.0 104.0 L128.0 104.0 L128.0 616.0 Z ''
                         ''fill:#dc2626;stroke:#a1a1aa;stroke-width:0.4;fill-opacity:0.8'',
                 SvgPath [] ''fill:#facc15;stroke:#a1a1aa;stroke-width:0.4;fill-opacity:0.8'',
                 SvgEnd],
        width = 1280, height = 720,
        texts = [DrawString ''5'' 532 416, DrawString ''3'' 635 365,
                 DrawString ''Code available under the MIT License (GitHub: evacuate).'' 10 706]\<rparr>"
proof -
  have d: "list_all drawable [example_feature 1 example_square, example_feature 2 example_point]"
    by (rule example_drawable)
  have l: "''true'' = ''true'' \<longrightarrow>
      list_all (labelable (assignAll [\<lparr>ID = 1, Scale = 5\<rparr>, \<lparr>ID = 2, Scale = 3\<rparr>] Map.empty))
        [example_feature 1 example_square, example_feature 2 example_point]"
    by (simp only: example_assignment example_labelable_point simp_thms)
  from mapHandler_ok [OF example_valid d l, of "''1''" "[]"]
  have "mapHandler [\<lparr>ID = 1, Scale = 5\<rparr>, \<lparr>ID = 2, Scale = 3\<rparr>] ''1'' [] ''true''
     [example_feature 1 example_square, example_feature 2 example_point] =
     Inr (spec_image [1 \<mapsto> 5, 2 \<mapsto> 3] 1 [] True
            [example_feature 1 example_square, example_feature 2 example_point] example_bounds)"
    by (simp add: example_bounds_point sizeMultiplier_def)
  then have run: "mapHandler [\<lparr>ID = 1, Scale = 5\<rparr>, \<lparr>ID = 2, Scale = 3\<rparr>] ''1'' [] ''true''
     [example_feature 1 example_square, example_feature 2 example_point] =
     Inr \<lparr>scene = [SvgStart 1280 720,
                 SvgRect 0 0 1280 720 ''fill:#18181b'',
                 SvgPath ''M128.0 616.0 L1152.0 616.0 L1152.0 104.0 L128.0 104.0 L128.0 616.0 Z ''
                         ''fill:#dc2626;stroke:#a1a1aa;stroke-width:0.4;fill-opacity:0.8'',
                 SvgPath [] ''fill:#facc15;stroke:#a1a1aa;stroke-width:0.4;fill-opacity:0.8'',
                 SvgEnd],
        width = 1280, height = 720,
        texts = [DrawString ''5'' 532 416, DrawString ''3'' 635 365,
                 DrawString ''Code available under the MIT License (GitHub: evacuate).'' 10 706]\<rparr>"
    by (simp only: example_image)
  have p: "hasNumericId (example_feature 2 example_point)"
    "Geometry (example_feature 2 example_point) = Some example_point"
    "Type example_point = ''Point''"
    by (simp_all add: hasNumericId_def example_feature_def example_point_def)
  from run p show ?thesis by simp
qed

theorem bad_id_fails_unsupported_geometry_is_drawn_empty_witness:
  "\<not> hasNumericId example_text_id \<and>
   mapHandler [\<lparr>ID = 1, Scale = 5\<rparr>] ''1'' [] [] [example_feature 1 example_square, example_text_id] =
     Inl PanicTypeAssertion \<and>
   hasNumericId (example_feature 2 example_point) \<and>
   Geometry (example_feature 2 example_point) = Some example_point \<and> unsupported example_point \<and>
   boundsFeature [2 \<mapsto> 3] example_bounds (example_feature 2 example_point) = Inr example_bounds \<and>
   drawFeature (funcToScreen 1280 720 example_bounds) [2 \<mapsto> 3] 1 [] (example_feature 2 example_point) =
     Inr [SvgPath [] ''fill:#facc15;stroke:#a1a1aa;stroke-width:0.4;fill-opacity:0.8''] \<and>
   list_all validScale [\<lparr>ID = 1, Scale = 5\<rparr>, \<lparr>ID = 2, Scale = 3\<rparr>] \<and>
   list_all drawable [example_feature 1 example_square, example_feature 2 example_point] \<and>
   (\<exists>img. mapHandler [\<lparr>ID = 1, Scale = 5\<rparr>, \<lparr>ID = 2, Scale = 3\<rparr>] ''1'' [] []
            [example_feature 1 example_square, example_feature 2 example_point] = Inr img)"
proof -
  have bad: "\<not> hasNumericId example_text_id"
    by (simp add: hasNumericId_def example_text_id_def)
  have m: "buildScaleMap [\<lparr>ID = 1, Scale = 5\<rparr>] = Inr [1 \<mapsto> 5]"
    by (simp add: buildScaleMap_def storeIntensity_def)
  have cb: "calculateBounds [example_feature 1 example_square, example_text_id] [1 \<mapsto> 5] =
      Inl PanicTypeAssertion"
    by (simp add: bounds_eval example_defs example_text_id_def)
  have run: "mapHandler [\<lparr>ID = 1, Scale = 5\<rparr>] ''1'' [] [] [example_feature 1 example_square, example_text_id] =
     Inl PanicTypeAssertion"
    by (simp add: mapHandler_def m cb Let_def)
  have p: "hasNumericId (example_feature 2 example_point)"
    "Geometry (example_feature 2 example_point) = Some example_point" "unsupported example_point"
    by (simp_all add: hasNumericId_def unsupported_def example_feature_def example_point_def)
  have lv: "level [2 \<mapsto> 3] (example_feature 2 example_point) = 3"
    by (simp add: level_def featureId_def scaleAt_def go_int_def example_feature_def)
  have st: "spec_style 3 1 = ''fill:#facc15;stroke:#a1a1aa;stroke-width:0.4;fill-opacity:0.8''"
    by (simp add: spec_style_def intensityToColor_def fmt_eval)
  have l: "[] = ''true'' \<longrightarrow>
      list_all (labelable (assignAll [\<lparr>ID = 1, Scale = 5\<rparr>, \<lparr>ID = 2, Scale = 3\<rparr>] Map.empty))
        [example_feature 1 example_square, example_feature 2 example_point]"
    by simp
  note inst = bad_id_fails_unsupported_geometry_is_drawn_empty
    [of "[example_feature 1 example_square, example_text_id]" "[\<lparr>ID = 1, Scale = 5\<rparr>]" "''1''" "[]" "[]"
        "example_feature 2 example_point" example_point "[2 \<mapsto> 3]" example_bounds
        "funcToScreen 1280 720 example_bounds" 1 "[]"
        "[\<lparr>ID = 1, Scale = 5\<rparr>, \<lparr>ID = 2, Scale = 3\<rparr>]"
        "[example_feature 1 example_square, example_feature 2 example_point]" "[]" "''1''" "[]"]
  from inst bad run p example_valid example_drawable l lv st
  show ?thesis by auto
qed

end
